theory Spec2Isabelle
  imports Main "HOL-Library.Char_ord" "HOL-Library.List_Lexorder" "HOL-Library.Multiset"
begin

section \<open>Text primitives\<close>

text \<open>
  Python strings are modelled as \<^typ>\<open>string\<close>; a character is a code point below 256.
  Strings are compared as Python compares them: lexicographically by code point
  (the order of \<open>List_Lexorder\<close> over \<open>Char_ord\<close>).
\<close>

definition code :: "char \<Rightarrow> nat" where
  "code c = of_char c"

text \<open>\<^verbatim>\<open>\d\<close> of the \<^verbatim>\<open>re\<close> module: below code point 256 the decimal digits are 0 to 9.\<close>

definition is_digit :: "char \<Rightarrow> bool" where
  "is_digit c = (48 \<le> code c \<and> code c \<le> 57)"

definition digit_val :: "char \<Rightarrow> nat" where
  "digit_val c = code c - 48"

definition digit_char :: "nat \<Rightarrow> char" where
  "digit_char n = char_of (48 + n)"

text \<open>\<^verbatim>\<open>str.isspace\<close> and \<^verbatim>\<open>\s\<close>, for code points below 256.\<close>

definition is_space :: "char \<Rightarrow> bool" where
  "is_space c = (code c \<in> {9, 10, 11, 12, 13, 28, 29, 30, 31, 32, 133, 160})"

text \<open>\<^verbatim>\<open>str.strip()\<close>\<close>

definition strip :: "string \<Rightarrow> string" where
  "strip s = rev (dropWhile is_space (rev (dropWhile is_space s)))"

text \<open>\<^verbatim>\<open>str.lower()\<close>, for code points below 256.\<close>

definition lower_char :: "char \<Rightarrow> char" where
  "lower_char c =
     (if (65 \<le> code c \<and> code c \<le> 90) \<or> (192 \<le> code c \<and> code c \<le> 222 \<and> code c \<noteq> 215)
      then char_of (code c + 32) else c)"

definition lower :: "string \<Rightarrow> string" where
  "lower s = map lower_char s"

text \<open>\<^verbatim>\<open>sub in s\<close> on strings: \<open>sub\<close> occurs in \<open>s\<close> as a contiguous run.\<close>

fun starts_with :: "string \<Rightarrow> string \<Rightarrow> bool" where
  "starts_with s [] = True"
| "starts_with [] (p # ps) = False"
| "starts_with (c # cs) (p # ps) = (c = p \<and> starts_with cs ps)"

fun contains :: "string \<Rightarrow> string \<Rightarrow> bool" where
  "contains [] sub = (sub = [])"
| "contains (c # cs) sub = (starts_with (c # cs) sub \<or> contains cs sub)"

text \<open>\<^verbatim>\<open>xs.index(x)\<close>, used only where \<open>x\<close> is known to occur.\<close>

fun index_of :: "'a \<Rightarrow> 'a list \<Rightarrow> nat" where
  "index_of x [] = 0"
| "index_of x (y # ys) = (if x = y then 0 else Suc (index_of x ys))"


section \<open>\<^verbatim>\<open>utils/date_utils.py\<close>\<close>

subsection \<open>\<^verbatim>\<open>datetime.strptime\<close> and \<^verbatim>\<open>strftime\<close>\<close>

text \<open>
  \<^verbatim>\<open>datetime.strptime\<close> turns the format into a regular expression (\<^verbatim>\<open>%Y\<close> is
  \<^verbatim>\<open>\d\d\d\d\<close>, \<^verbatim>\<open>%m\<close> is \<^verbatim>\<open>1[0-2]|0[1-9]|[1-9]\<close>, \<^verbatim>\<open>%d\<close> is
  \<^verbatim>\<open>3[01]|[12]\d|0[1-9]|[1-9]| [1-9]\<close>), matches it at the start of the text with
  backtracking, raises \<^verbatim>\<open>ValueError\<close> when there is no match or when text remains
  after the match, and then builds the datetime, which raises \<^verbatim>\<open>ValueError\<close> for a day
  the month does not have and for year 0. A matcher returns its matches in the order the
  backtracking tries them; \<open>None\<close> stands for the raised \<^verbatim>\<open>ValueError\<close>.
\<close>

datatype directive = PctY | Pctm | Pctd | Lit char

type_synonym pydate = "nat \<times> nat \<times> nat"

definition re_Y :: "string \<Rightarrow> (nat \<times> string) list" where
  "re_Y s =
     (case s of
        a # b # c # d # r \<Rightarrow>
          (if is_digit a \<and> is_digit b \<and> is_digit c \<and> is_digit d
           then [(1000 * digit_val a + 100 * digit_val b + 10 * digit_val c + digit_val d, r)]
           else [])
      | _ \<Rightarrow> [])"

definition re_m :: "string \<Rightarrow> (nat \<times> string) list" where
  "re_m s =
     (case s of
        a # b # r \<Rightarrow>
          (if a = CHR ''1'' \<and> is_digit b \<and> digit_val b \<le> 2 then [(10 + digit_val b, r)] else []) @
          (if a = CHR ''0'' \<and> is_digit b \<and> 1 \<le> digit_val b then [(digit_val b, r)] else [])
      | _ \<Rightarrow> []) @
     (case s of
        a # r \<Rightarrow> (if is_digit a \<and> 1 \<le> digit_val a then [(digit_val a, r)] else [])
      | _ \<Rightarrow> [])"

definition re_d :: "string \<Rightarrow> (nat \<times> string) list" where
  "re_d s =
     (case s of
        a # b # r \<Rightarrow>
          (if a = CHR ''3'' \<and> is_digit b \<and> digit_val b \<le> 1 then [(30 + digit_val b, r)] else []) @
          (if (a = CHR ''1'' \<or> a = CHR ''2'') \<and> is_digit b
           then [(10 * digit_val a + digit_val b, r)] else []) @
          (if a = CHR ''0'' \<and> is_digit b \<and> 1 \<le> digit_val b then [(digit_val b, r)] else [])
      | _ \<Rightarrow> []) @
     (case s of
        a # r \<Rightarrow> (if is_digit a \<and> 1 \<le> digit_val a then [(digit_val a, r)] else [])
      | _ \<Rightarrow> []) @
     (case s of
        a # b # r \<Rightarrow>
          (if a = CHR '' '' \<and> is_digit b \<and> 1 \<le> digit_val b then [(digit_val b, r)] else [])
      | _ \<Rightarrow> [])"

fun re_match :: "directive list \<Rightarrow> string \<Rightarrow> pydate \<Rightarrow> (pydate \<times> string) list" where
  "re_match [] s acc = [(acc, s)]"
| "re_match (PctY # ds) s (y, m, d) = concat (map (\<lambda>(v, r). re_match ds r (v, m, d)) (re_Y s))"
| "re_match (Pctm # ds) s (y, m, d) = concat (map (\<lambda>(v, r). re_match ds r (y, v, d)) (re_m s))"
| "re_match (Pctd # ds) s (y, m, d) = concat (map (\<lambda>(v, r). re_match ds r (y, m, v)) (re_d s))"
| "re_match (Lit c # ds) s acc =
     (case s of [] \<Rightarrow> [] | a # r \<Rightarrow> (if a = c then re_match ds r acc else []))"

definition is_leap :: "nat \<Rightarrow> bool" where
  "is_leap y = (y mod 4 = 0 \<and> (y mod 100 \<noteq> 0 \<or> y mod 400 = 0))"

definition days_in_month :: "nat \<Rightarrow> nat \<Rightarrow> nat" where
  "days_in_month y m =
     (if m = 2 then (if is_leap y then 29 else 28)
      else if m = 4 \<or> m = 6 \<or> m = 9 \<or> m = 11 then 30 else 31)"

text \<open>The dates a \<^verbatim>\<open>datetime\<close> can hold: years 1 to 9999.\<close>

definition valid_date :: "pydate \<Rightarrow> bool" where
  "valid_date dt =
     (case dt of (y, m, d) \<Rightarrow>
        1 \<le> y \<and> y \<le> 9999 \<and> 1 \<le> m \<and> m \<le> 12 \<and> 1 \<le> d \<and> d \<le> days_in_month y m)"

definition strptime :: "string \<Rightarrow> directive list \<Rightarrow> pydate option" where
  "strptime s fmt =
     (case re_match fmt s (1900, 1, 1) of
        [] \<Rightarrow> None
      | (dt, rest) # _ \<Rightarrow> (if rest \<noteq> [] then None else if valid_date dt then Some dt else None))"

text \<open>
  \<^verbatim>\<open>strftime('%Y-%m-%d')\<close> is the C library's \<^verbatim>\<open>strftime\<close>, which CPython calls:
  month and day on two digits, and the year as glibc writes it, in decimal without
  leading zeros (\<^verbatim>\<open>datetime(999, 1, 15).strftime('%Y-%m-%d')\<close> is \<^verbatim>\<open>'999-01-15'\<close>).
  \<open>str_nat\<close> is the decimal writing of a natural number, Python's \<^verbatim>\<open>str(n)\<close>.
\<close>

function str_nat :: "nat \<Rightarrow> string" where
  "str_nat n = (if n < 10 then [digit_char n] else str_nat (n div 10) @ [digit_char (n mod 10)])"
  by pat_completeness auto
termination
  by (relation "measure (\<lambda>n. n)") auto

definition pad2 :: "nat \<Rightarrow> string" where
  "pad2 n = [digit_char (n div 10 mod 10), digit_char (n mod 10)]"

definition strftime :: "pydate \<Rightarrow> string" where
  "strftime dt = (case dt of (y, m, d) \<Rightarrow> str_nat y @ ''-'' @ pad2 m @ ''-'' @ pad2 d)"

text \<open>Comparison of two datetimes at midnight: by year, then month, then day.\<close>

definition dt_less :: "pydate \<Rightarrow> pydate \<Rightarrow> bool" where
  "dt_less a b =
     (case a of (y1, m1, d1) \<Rightarrow> case b of (y2, m2, d2) \<Rightarrow>
        y1 < y2 \<or> (y1 = y2 \<and> (m1 < m2 \<or> (m1 = m2 \<and> d1 < d2))))"

subsection \<open>Cell values\<close>

text \<open>
  A cell of the table is a Python object. The model keeps what the code observes of it:
  whether \<^verbatim>\<open>pd.isna\<close> holds, whether it is a \<^verbatim>\<open>str\<close>, an \<^verbatim>\<open>int\<close> or \<^verbatim>\<open>float\<close>
  (with the value \<^verbatim>\<open>float(v)\<close>), or an object with \<^verbatim>\<open>strftime\<close> (a timestamp, with its
  calendar date), and for every object its \<^verbatim>\<open>str(v)\<close> and its truth value. The type
  \<open>'f\<close> stands for Python's floats.
\<close>

datatype 'f cell =
    Missing string
  | Str string
  | Num 'f string bool
  | Stamp pydate string
  | Other string bool

text \<open>\<^verbatim>\<open>None\<close>, the default of \<^verbatim>\<open>get_cell_value\<close>.\<close>

definition PyNone :: "'f cell" where
  "PyNone = Missing ''None''"

fun py_str :: "'f cell \<Rightarrow> string" where
  "py_str (Missing t) = t"
| "py_str (Str s) = s"
| "py_str (Num x t b) = t"
| "py_str (Stamp dt t) = t"
| "py_str (Other t b) = t"

fun truthy :: "'f cell \<Rightarrow> bool" where
  "truthy (Missing t) = False"
| "truthy (Str s) = (s \<noteq> [])"
| "truthy (Num x t b) = b"
| "truthy (Stamp dt t) = True"
| "truthy (Other t b) = b"

fun isna :: "'f cell \<Rightarrow> bool" where
  "isna (Missing t) = True"
| "isna c = False"

subsection \<open>\<^verbatim>\<open>parse_date\<close>\<close>

text \<open>
  \<^verbatim>\<open>re.match(r'^\d{4}-\d{2}-\d{2}$', s)\<close>: without the \<^verbatim>\<open>MULTILINE\<close> flag \<^verbatim>\<open>$\<close> matches
  at the end of the text and also before a newline that ends the text.
\<close>

definition iso_shape :: "string \<Rightarrow> bool" where
  "iso_shape s =
     (length s = 10 \<and>
      is_digit (s ! 0) \<and> is_digit (s ! 1) \<and> is_digit (s ! 2) \<and> is_digit (s ! 3) \<and>
      s ! 4 = CHR ''-'' \<and> is_digit (s ! 5) \<and> is_digit (s ! 6) \<and>
      s ! 7 = CHR ''-'' \<and> is_digit (s ! 8) \<and> is_digit (s ! 9))"

definition iso_regex_match :: "string \<Rightarrow> bool" where
  "iso_regex_match s =
     (iso_shape s \<or> (length s = 11 \<and> iso_shape (take 10 s) \<and> s ! 10 = CHR 0x0A))"

definition fmt_Ymd :: "directive list" where
  "fmt_Ymd = [PctY, Lit CHR ''-'', Pctm, Lit CHR ''-'', Pctd]"

definition formats :: "directive list list" where
  "formats =
     [fmt_Ymd,
      [Pctm, Lit CHR ''/'', Pctd, Lit CHR ''/'', PctY],
      [Pctd, Lit CHR ''/'', Pctm, Lit CHR ''/'', PctY],
      [PctY, Lit CHR ''/'', Pctm, Lit CHR ''/'', Pctd],
      [Pctd, Lit CHR ''-'', Pctm, Lit CHR ''-'', PctY],
      [Pctm, Lit CHR ''-'', Pctd, Lit CHR ''-'', PctY]]"

text \<open>The loop over the formats: the first that parses wins.\<close>

fun try_formats :: "string \<Rightarrow> directive list list \<Rightarrow> string option" where
  "try_formats s [] = None"
| "try_formats s (fmt # fmts) =
     (case strptime (strip s) fmt of
        Some dt \<Rightarrow> Some (strftime dt)
      | None \<Rightarrow> try_formats s fmts)"

definition parse_date :: "'f cell \<Rightarrow> string option" where
  "parse_date date_value =
     (case date_value of
        Missing t \<Rightarrow> None
      | Str s \<Rightarrow> (if iso_regex_match s then Some s else try_formats s formats)
      | Stamp dt t \<Rightarrow> Some (strftime dt)
      | Num x t b \<Rightarrow> None
      | Other t b \<Rightarrow> None)"

subsection \<open>\<^verbatim>\<open>compare_dates\<close> and \<^verbatim>\<open>get_date_boundaries\<close>\<close>

text \<open>The \<^verbatim>\<open>except (ValueError, TypeError)\<close> branch is the \<open>None\<close> of \<open>strptime\<close>.\<close>

definition compare_dates :: "string \<Rightarrow> string \<Rightarrow> int" where
  "compare_dates date1 date2 =
     (case strptime date1 fmt_Ymd of
        None \<Rightarrow> 0
      | Some d1 \<Rightarrow>
          (case strptime date2 fmt_Ymd of
             None \<Rightarrow> 0
           | Some d2 \<Rightarrow> (if dt_less d1 d2 then - 1 else if dt_less d2 d1 then 1 else 0)))"

definition get_date_boundaries :: "string option list \<Rightarrow> string option \<times> string option" where
  "get_date_boundaries dates =
     (if dates = [] then (None, None)
      else
        (let valid_dates = map the (filter (\<lambda>d. d \<noteq> None) dates) in
         if valid_dates = [] then (None, None)
         else
           (let sorted_dates = sort valid_dates in
            (Some (hd sorted_dates), Some (last sorted_dates)))))"


section \<open>\<^verbatim>\<open>schemas/models.py\<close>\<close>

text \<open>
  The five dataclasses. Each has the field \<open>date\<close>; the merger reads nothing else, so it
  is written once, over every record that extends \<open>txn\<close>. A list of one record type is
  a kind-homogeneous list.
\<close>

record txn =
  date :: string

record 'f purchase = txn +
  company_symbol :: string
  quantity :: 'f
  unit_price :: 'f
  currency :: string
  transaction_fee :: "'f option"
  proceeds_foreign :: "'f option"
  proceeds_ils :: "'f option"

record 'f sale = txn +
  company_symbol :: string
  quantity :: 'f
  unit_price :: 'f
  currency :: string
  transaction_fee :: "'f option"
  proceeds_foreign :: "'f option"
  proceeds_ils :: "'f option"

record 'f dividend = txn +
  company_symbol :: string
  amount :: 'f
  currency :: string

record 'f tax = txn +
  company_symbol :: "string option"
  amount :: 'f
  currency :: string

record 'f transfer = txn +
  type :: string
  amount :: 'f
  currency :: string


section \<open>\<^verbatim>\<open>processors/merger.py\<close>\<close>

definition get_transaction_date :: "'a txn_scheme \<Rightarrow> string" where
  "get_transaction_date transaction = date transaction"

text \<open>\<^verbatim>\<open>_simple_merge\<close>: \<^verbatim>\<open>list.sort(key=...)\<close> is a stable sort on the date strings.\<close>

definition simple_merge :: "'a txn_scheme list \<Rightarrow> 'a txn_scheme list \<Rightarrow> 'a txn_scheme list" where
  "simple_merge existing new = sort_key get_transaction_date (existing @ new)"

text \<open>\<^verbatim>\<open>_sorted_merge\<close>: the \<^verbatim>\<open>while\<close> loop with its two pointers and its result list.\<close>

function sorted_merge_loop ::
  "'a txn_scheme list \<Rightarrow> 'a txn_scheme list \<Rightarrow> nat \<Rightarrow> nat \<Rightarrow> 'a txn_scheme list \<Rightarrow> 'a txn_scheme list"
where
  "sorted_merge_loop existing new i j result =
     (if i < length existing \<and> j < length new then
        (let existing_date = get_transaction_date (existing ! i);
             new_date = get_transaction_date (new ! j)
         in if compare_dates existing_date new_date \<le> 0
            then sorted_merge_loop existing new (i + 1) j (result @ [existing ! i])
            else sorted_merge_loop existing new i (j + 1) (result @ [new ! j]))
      else result @ drop i existing @ drop j new)"
  by pat_completeness auto
termination
  by (relation "measure (\<lambda>(existing, new, i, j, result). (length existing - i) + (length new - j))")
     auto

definition sorted_merge :: "'a txn_scheme list \<Rightarrow> 'a txn_scheme list \<Rightarrow> 'a txn_scheme list" where
  "sorted_merge existing new = sorted_merge_loop existing new 0 0 []"

text \<open>
  \<^verbatim>\<open>merge_transactions\<close>. The parameter \<^verbatim>\<open>category_name\<close> only feeds the log and is
  left out.
\<close>

definition merge_transactions ::
  "'a txn_scheme list \<Rightarrow> 'a txn_scheme list \<Rightarrow> 'a txn_scheme list"
where
  "merge_transactions existing new =
     (if new = [] then existing
      else if existing = [] then new
      else
        (let existing_dates = map (\<lambda>t. Some (get_transaction_date t)) existing;
             new_dates = map (\<lambda>t. Some (get_transaction_date t)) new
         in case (get_date_boundaries existing_dates, get_date_boundaries new_dates) of
              ((Some existing_min, Some existing_max), (Some new_min, Some new_max)) \<Rightarrow>
                (if compare_dates new_max existing_min < 0 then new @ existing
                 else if compare_dates new_min existing_max > 0 then existing @ new
                 else sorted_merge existing new)
            | _ \<Rightarrow> simple_merge existing new))"

section \<open>\<^verbatim>\<open>utils/number_utils.py\<close>\<close>

text \<open>
  \<^verbatim>\<open>parse_float\<close>. Python's \<^verbatim>\<open>float()\<close> on a string is the parameter \<open>pyfloat\<close>
  (\<open>None\<close> when it raises \<^verbatim>\<open>ValueError\<close>). The value reaches \<^verbatim>\<open>parse_float\<close> from
  \<^verbatim>\<open>get_cell_value\<close>, which has replaced every missing cell by \<^verbatim>\<open>None\<close>. The
  substitution \<^verbatim>\<open>re.sub\<close> removes dollar, pound, comma and white space; the euro sign
  it also names is beyond code point 255.
\<close>

definition parse_float :: "(string \<Rightarrow> 'f option) \<Rightarrow> 'f cell \<Rightarrow> 'f option" where
  "parse_float pyfloat val =
     (case val of
        Missing t \<Rightarrow> None
      | Num x t b \<Rightarrow> Some x
      | Str s \<Rightarrow>
          (let cleaned = strip s in
           if cleaned = [] then None
           else pyfloat (filter (\<lambda>c. \<not> (c = CHR ''$'' \<or> c = CHR 0xA3 \<or> c = CHR '','' \<or> is_space c))
                           cleaned))
      | Stamp dt t \<Rightarrow> None
      | Other t b \<Rightarrow> None)"


section \<open>\<^verbatim>\<open>processors/categorizer.py\<close>\<close>

text \<open>
  A row (a pandas \<^verbatim>\<open>Series\<close>) is the list of its labels with their cells; a table (a
  \<^verbatim>\<open>DataFrame\<close>) has its column labels in order and its rows. A label is a text, or
  an object that is not a text, such as the number that the header cell of a spreadsheet
  holds; of such a label the model keeps its \<^verbatim>\<open>repr\<close>. Calling \<^verbatim>\<open>lower()\<close> on it
  raises \<^verbatim>\<open>AttributeError\<close>.
\<close>

datatype label = Name string | NonText string

datatype error = AttributeError

fun is_text :: "label \<Rightarrow> bool" where
  "is_text (Name s) = True"
| "is_text (NonText r) = False"

fun text_of :: "label \<Rightarrow> string" where
  "text_of (Name s) = s"
| "text_of (NonText r) = r"

type_synonym 'f series = "(label \<times> 'f cell) list"

record 'f dataframe =
  columns :: "label list"
  rows :: "'f series list"

definition PURCHASE_KEYWORDS :: "string list" where
  "PURCHASE_KEYWORDS = [''Buy'', ''Purchase'', ''ExecutedBuy'']"

definition SALE_KEYWORDS :: "string list" where
  "SALE_KEYWORDS = [''Sell'', ''Sale'', ''ExecutedSell'']"

definition DIVIDEND_KEYWORDS :: "string list" where
  "DIVIDEND_KEYWORDS = [''Dividend'']"

definition TAX_KEYWORDS :: "string list" where
  "TAX_KEYWORDS = [''Withholding'', ''Tax'', ''Foreign Tax'']"

definition DEPOSIT_KEYWORDS :: "string list" where
  "DEPOSIT_KEYWORDS = [''Deposit'', ''Cash Transfer'']"

definition FEE_KEYWORDS :: "string list" where
  "FEE_KEYWORDS = [''Cash Handling Fee'', ''Fee'', ''Handling'']"

definition possible_names :: "string list" where
  "possible_names =
     [''Transaction Type'', ''Type'', ''Transaction'', ''Action'', ''TransactionType'',
      ''transaction_type'', ''type'']"

text \<open>
  \<^verbatim>\<open>find_transaction_type_column\<close>. The comprehension
  \<^verbatim>\<open>[col.lower() for col in df.columns]\<close> is reached when no name matches exactly, and
  raises when a label is not a text.
\<close>

definition find_transaction_type_column :: "'f dataframe \<Rightarrow> error + string option" where
  "find_transaction_type_column df =
     (case find (\<lambda>name. Name name \<in> set (columns df)) possible_names of
        Some name \<Rightarrow> Inr (Some name)
      | None \<Rightarrow>
          (if list_ex (\<lambda>col. \<not> is_text col) (columns df) then Inl AttributeError
           else
             (let df_columns_lower = map (\<lambda>col. lower (text_of col)) (columns df) in
              case find (\<lambda>name. lower name \<in> set df_columns_lower) possible_names of
                Some name \<Rightarrow>
                  Inr (Some (text_of (columns df ! index_of (lower name) df_columns_lower)))
              | None \<Rightarrow> Inr None)))"

text \<open>
  \<^verbatim>\<open>for keyword in KEYWORDS: if keyword.lower() in transaction_type_lower\<close>: some
  keyword of the list, lower-cased, occurs in the text.
\<close>

definition matches_any :: "string list \<Rightarrow> string \<Rightarrow> bool" where
  "matches_any keywords transaction_type_lower =
     list_ex (\<lambda>keyword. contains transaction_type_lower (lower keyword)) keywords"

definition categorize_transaction :: "'f series \<Rightarrow> string option \<Rightarrow> string option" where
  "categorize_transaction row transaction_type_col =
     (case transaction_type_col of
        None \<Rightarrow> None
      | Some col \<Rightarrow>
          (case map_of row (Name col) of
             None \<Rightarrow> None
           | Some v \<Rightarrow>
               (let transaction_type = strip (py_str v);
                    transaction_type_lower = lower transaction_type
                in if matches_any PURCHASE_KEYWORDS transaction_type_lower then Some ''purchase''
                   else if matches_any SALE_KEYWORDS transaction_type_lower then Some ''sale''
                   else if matches_any DIVIDEND_KEYWORDS transaction_type_lower then Some ''dividend''
                   else if matches_any TAX_KEYWORDS transaction_type_lower then Some ''tax''
                   else if matches_any DEPOSIT_KEYWORDS transaction_type_lower then Some ''deposit''
                   else if matches_any FEE_KEYWORDS transaction_type_lower then Some ''fee''
                   else None)))"

definition possible_symbol_cols :: "string list" where
  "possible_symbol_cols =
     [''Company Symbol'', ''Symbol'', ''Company'', ''Ticker'', ''company_symbol'', ''symbol'']"

definition get_company_symbol_for_dividend :: "'f series \<Rightarrow> string \<Rightarrow> string option" where
  "get_company_symbol_for_dividend row transaction_type_col =
     (let cols = map fst row in
      if Name transaction_type_col \<notin> set cols then None
      else
        (let type_col_idx = index_of (Name transaction_type_col) cols;
             next_symbol =
               (if type_col_idx + 1 < length cols then
                  (case map_of row (cols ! (type_col_idx + 1)) of
                     Some symbol \<Rightarrow> (if \<not> isna symbol then Some (strip (py_str symbol)) else None)
                   | None \<Rightarrow> None)
                else None)
         in case next_symbol of
              Some s \<Rightarrow> Some s
            | None \<Rightarrow>
                (case find (\<lambda>col. case map_of row (Name col) of Some v \<Rightarrow> \<not> isna v | None \<Rightarrow> False)
                        possible_symbol_cols of
                   Some col \<Rightarrow> map_option (\<lambda>v. strip (py_str v)) (map_of row (Name col))
                 | None \<Rightarrow> None)))"


section \<open>\<^verbatim>\<open>processors/transformer.py\<close>\<close>

text \<open>
  The column index is a literal of the code, never negative: a natural number. Where a
  local variable of the code has the name of a record field, the model renames it.
\<close>

definition get_cell_value :: "'f series \<Rightarrow> 'f dataframe \<Rightarrow> nat \<Rightarrow> 'f cell \<Rightarrow> 'f cell" where
  "get_cell_value row df column_index dflt =
     (if column_index \<ge> length (columns df) then dflt
      else
        (let col_name = columns df ! column_index in
         case map_of row col_name of
           None \<Rightarrow> dflt
         | Some v \<Rightarrow> (if isna v then dflt else v)))"

text \<open>The three lines every transform has for the currency (column G).\<close>

definition currency_of :: "'f series \<Rightarrow> 'f dataframe \<Rightarrow> string" where
  "currency_of row df =
     (let cur = strip (py_str (get_cell_value row df 6 (Str [])))
      in if cur = [] then ''USD'' else cur)"

definition transform_to_purchase ::
  "(string \<Rightarrow> 'f option) \<Rightarrow> 'f series \<Rightarrow> 'f dataframe \<Rightarrow> 'f purchase option"
where
  "transform_to_purchase pyfloat row df =
     (case parse_date (get_cell_value row df 0 PyNone) of
        None \<Rightarrow> None
      | Some date_str \<Rightarrow>
          (let symbol = get_cell_value row df 3 (Str []);
               symbol = (if \<not> truthy symbol then Str [] else symbol)
           in case parse_float pyfloat (get_cell_value row df 4 PyNone) of
                None \<Rightarrow> None
              | Some quantity_value \<Rightarrow>
                  (case parse_float pyfloat (get_cell_value row df 5 PyNone) of
                     None \<Rightarrow> None
                   | Some unit_price_value \<Rightarrow>
                       Some \<lparr>date = date_str,
                             purchase.company_symbol = py_str symbol,
                             purchase.quantity = quantity_value,
                             purchase.unit_price = unit_price_value,
                             purchase.currency = currency_of row df,
                             purchase.transaction_fee = parse_float pyfloat (get_cell_value row df 7 PyNone),
                             purchase.proceeds_foreign = parse_float pyfloat (get_cell_value row df 9 PyNone),
                             purchase.proceeds_ils = parse_float pyfloat (get_cell_value row df 10 PyNone)\<rparr>)))"

definition transform_to_sale ::
  "(string \<Rightarrow> 'f option) \<Rightarrow> 'f series \<Rightarrow> 'f dataframe \<Rightarrow> 'f sale option"
where
  "transform_to_sale pyfloat row df =
     (case transform_to_purchase pyfloat row df of
        None \<Rightarrow> None
      | Some p \<Rightarrow>
          Some \<lparr>date = date p,
                sale.company_symbol = purchase.company_symbol p,
                sale.quantity = purchase.quantity p,
                sale.unit_price = purchase.unit_price p,
                sale.currency = purchase.currency p,
                sale.transaction_fee = purchase.transaction_fee p,
                sale.proceeds_foreign = purchase.proceeds_foreign p,
                sale.proceeds_ils = purchase.proceeds_ils p\<rparr>)"

text \<open>
  The amount of a dividend, tax or transfer: column J, then K, then F, each tried only
  when the one before gave \<^verbatim>\<open>None\<close>.
\<close>

definition amount_of :: "(string \<Rightarrow> 'f option) \<Rightarrow> 'f series \<Rightarrow> 'f dataframe \<Rightarrow> 'f option" where
  "amount_of pyfloat row df =
     (let a = parse_float pyfloat (get_cell_value row df 9 PyNone);
          a = (if a = None then parse_float pyfloat (get_cell_value row df 10 PyNone) else a);
          a = (if a = None then parse_float pyfloat (get_cell_value row df 5 PyNone) else a)
      in a)"

definition transform_to_dividend ::
  "(string \<Rightarrow> 'f option) \<Rightarrow> 'f series \<Rightarrow> 'f dataframe \<Rightarrow> string option \<Rightarrow> 'f dividend option"
where
  "transform_to_dividend pyfloat row df symbol_given =
     (case parse_date (get_cell_value row df 0 PyNone) of
        None \<Rightarrow> None
      | Some date_str \<Rightarrow>
          (let symbol =
                 (case symbol_given of
                    None \<Rightarrow> strip (py_str (get_cell_value row df 3 (Str [])))
                  | Some s \<Rightarrow> s);
               symbol = (if symbol = [] then [] else symbol)
           in case amount_of pyfloat row df of
                None \<Rightarrow> None
              | Some amount_value \<Rightarrow>
                  Some \<lparr>date = date_str,
                        dividend.company_symbol = symbol,
                        dividend.amount = amount_value,
                        dividend.currency = currency_of row df\<rparr>))"

definition transform_to_tax ::
  "(string \<Rightarrow> 'f option) \<Rightarrow> 'f series \<Rightarrow> 'f dataframe \<Rightarrow> string option \<Rightarrow> 'f tax option"
where
  "transform_to_tax pyfloat row df symbol_given =
     (case parse_date (get_cell_value row df 0 PyNone) of
        None \<Rightarrow> None
      | Some date_str \<Rightarrow>
          (let symbol =
                 (case symbol_given of
                    None \<Rightarrow>
                      (let s = strip (py_str (get_cell_value row df 3 (Str [])))
                       in if s = [] then None else Some s)
                  | Some s \<Rightarrow> Some s)
           in case amount_of pyfloat row df of
                None \<Rightarrow> None
              | Some amount_value \<Rightarrow>
                  Some \<lparr>date = date_str,
                        tax.company_symbol = symbol,
                        tax.amount = amount_value,
                        tax.currency = currency_of row df\<rparr>))"

definition transform_to_transfer ::
  "(string \<Rightarrow> 'f option) \<Rightarrow> 'f series \<Rightarrow> 'f dataframe \<Rightarrow> string \<Rightarrow> 'f transfer option"
where
  "transform_to_transfer pyfloat row df transfer_type =
     (case parse_date (get_cell_value row df 0 PyNone) of
        None \<Rightarrow> None
      | Some date_str \<Rightarrow>
          (case amount_of pyfloat row df of
             None \<Rightarrow> None
           | Some amount_value \<Rightarrow>
               Some \<lparr>date = date_str,
                     transfer.type = transfer_type,
                     transfer.amount = amount_value,
                     transfer.currency = currency_of row df\<rparr>))"


section \<open>\<^verbatim>\<open>parsers/file_loader.py\<close>\<close>

text \<open>
  \<^verbatim>\<open>load_file\<close> reads the file system and decodes the file: it is a parameter of the
  model, a function from directory and file name to either the error message (the pair
  \<^verbatim>\<open>(None, error)\<close>) or the table (the pair \<^verbatim>\<open>(df, None)\<close>).
  \<^verbatim>\<open>validate_dataframe\<close> is modelled: \<^verbatim>\<open>df.empty\<close> holds when the table has no row
  or no column.
\<close>

definition validate_dataframe :: "'f dataframe \<Rightarrow> string \<Rightarrow> bool \<times> string option" where
  "validate_dataframe df filename =
     (if rows df = [] \<or> columns df = [] then (False, Some (filename @ '': File is empty (no rows)''))
      else if length (columns df) = 0 then (False, Some (filename @ '': File has no columns''))
      else (True, None))"


section \<open>\<^verbatim>\<open>ParsedJobResult\<close> of \<^verbatim>\<open>schemas/models.py\<close>\<close>

record 'f parsed_job_result =
  jobId :: string
  purchases :: "'f purchase list"
  sales :: "'f sale list"
  dividends :: "'f dividend list"
  taxes :: "'f tax list"
  transfers :: "'f transfer list"
  errors :: "string list"


section \<open>\<^verbatim>\<open>orchestrator.py\<close>\<close>

text \<open>
  \<^verbatim>\<open>str(list(df.columns))\<close>: the \<^verbatim>\<open>repr\<close> of the labels, a text in single quotes,
  separated by a comma and a space, in brackets. The escapes \<^verbatim>\<open>repr\<close> writes for
  quotes, backslashes and control characters within a text are not modelled.
\<close>

fun repr_label :: "label \<Rightarrow> string" where
  "repr_label (Name x) = [CHR 0x27] @ x @ [CHR 0x27]"
| "repr_label (NonText r) = r"

fun join :: "string \<Rightarrow> string list \<Rightarrow> string" where
  "join sep [] = []"
| "join sep [x] = x"
| "join sep (x # y # ys) = x @ sep @ join sep (y # ys)"

definition py_repr_list :: "label list \<Rightarrow> string" where
  "py_repr_list xs = ''['' @ join '', '' (map repr_label xs) @ '']''"

text \<open>The state of a \<^verbatim>\<open>PortfolioParser\<close>, and \<^verbatim>\<open>__init__\<close>.\<close>

record 'f portfolio_parser =
  job_id :: string
  purchases :: "'f purchase list"
  sales :: "'f sale list"
  dividends :: "'f dividend list"
  taxes :: "'f tax list"
  transfers :: "'f transfer list"
  errors :: "string list"

definition init :: "string \<Rightarrow> 'f portfolio_parser" where
  "init jid =
     \<lparr>job_id = jid, purchases = [], sales = [], dividends = [], taxes = [], transfers = [],
      errors = []\<rparr>"

text \<open>The five lists local to \<^verbatim>\<open>_process_file\<close>.\<close>

record 'f file_lists =
  file_purchases :: "'f purchase list"
  file_sales :: "'f sale list"
  file_dividends :: "'f dividend list"
  file_taxes :: "'f tax list"
  file_transfers :: "'f transfer list"

definition no_lists :: "'f file_lists" where
  "no_lists =
     \<lparr>file_purchases = [], file_sales = [], file_dividends = [], file_taxes = [],
      file_transfers = []\<rparr>"

text \<open>
  The body of the loop over the rows, on the local lists and \<^verbatim>\<open>self.errors\<close>. The
  index \<open>idx\<close> is the position of the row: the label of the row in a table that carries
  the default index 0, 1, 2 and so on. No operation of the body raises in the model, so
  the \<^verbatim>\<open>except Exception\<close> branch has no case here.
\<close>

definition failed_to_transform :: "string \<Rightarrow> nat \<Rightarrow> string \<Rightarrow> string" where
  "failed_to_transform filename idx what =
     ''File '' @ filename @ '', row '' @ str_nat (idx + 1) @ '': Failed to transform '' @ what"

definition process_row ::
  "(string \<Rightarrow> 'f option) \<Rightarrow> string \<Rightarrow> string option \<Rightarrow> 'f dataframe \<Rightarrow> nat \<Rightarrow> 'f series \<Rightarrow>
   'f file_lists \<times> string list \<Rightarrow> 'f file_lists \<times> string list"
where
  "process_row pyfloat filename transaction_type_col df idx row st =
     (case st of (fl, errs) \<Rightarrow>
        (let category = categorize_transaction row transaction_type_col in
         if category = Some ''purchase'' then
           (case transform_to_purchase pyfloat row df of
              Some p \<Rightarrow> (fl\<lparr>file_purchases := file_purchases fl @ [p]\<rparr>, errs)
            | None \<Rightarrow> (fl, errs @ [failed_to_transform filename idx ''purchase'']))
         else if category = Some ''sale'' then
           (case transform_to_sale pyfloat row df of
              Some s \<Rightarrow> (fl\<lparr>file_sales := file_sales fl @ [s]\<rparr>, errs)
            | None \<Rightarrow> (fl, errs @ [failed_to_transform filename idx ''sale'']))
         else if category = Some ''dividend'' then
           (let symbol = get_company_symbol_for_dividend row
                           (case transaction_type_col of Some c \<Rightarrow> c | None \<Rightarrow> [])
            in case transform_to_dividend pyfloat row df symbol of
                 Some d \<Rightarrow> (fl\<lparr>file_dividends := file_dividends fl @ [d]\<rparr>, errs)
               | None \<Rightarrow> (fl, errs @ [failed_to_transform filename idx ''dividend'']))
         else if category = Some ''tax'' then
           (case transform_to_tax pyfloat row df None of
              Some t \<Rightarrow> (fl\<lparr>file_taxes := file_taxes fl @ [t]\<rparr>, errs)
            | None \<Rightarrow> (fl, errs @ [failed_to_transform filename idx ''tax'']))
         else if category = Some ''deposit'' then
           (case transform_to_transfer pyfloat row df ''deposit'' of
              Some t \<Rightarrow> (fl\<lparr>file_transfers := file_transfers fl @ [t]\<rparr>, errs)
            | None \<Rightarrow> (fl, errs @ [failed_to_transform filename idx ''deposit'']))
         else if category = Some ''fee'' then
           (case transform_to_transfer pyfloat row df ''cash_handling_fee'' of
              Some t \<Rightarrow> (fl\<lparr>file_transfers := file_transfers fl @ [t]\<rparr>, errs)
            | None \<Rightarrow> (fl, errs @ [failed_to_transform filename idx ''fee'']))
         else (fl, errs)))"

text \<open>\<^verbatim>\<open>for idx, row in df.iterrows()\<close>\<close>

fun process_rows ::
  "(string \<Rightarrow> 'f option) \<Rightarrow> string \<Rightarrow> string option \<Rightarrow> 'f dataframe \<Rightarrow> nat \<Rightarrow> 'f series list \<Rightarrow>
   'f file_lists \<times> string list \<Rightarrow> 'f file_lists \<times> string list"
where
  "process_rows pyfloat filename transaction_type_col df idx [] st = st"
| "process_rows pyfloat filename transaction_type_col df idx (row # rest) st =
     process_rows pyfloat filename transaction_type_col df (Suc idx) rest
       (process_row pyfloat filename transaction_type_col df idx row st)"

text \<open>
  \<^verbatim>\<open>_process_file\<close>, from the parser's state to its state after the file, or to the
  exception that leaves it: the call of \<^verbatim>\<open>find_transaction_type_column\<close> is outside
  every \<^verbatim>\<open>try\<close>.
\<close>

definition process_file ::
  "(string \<Rightarrow> string \<Rightarrow> string + 'f dataframe) \<Rightarrow> (string \<Rightarrow> 'f option) \<Rightarrow>
   'f portfolio_parser \<Rightarrow> string \<Rightarrow> string \<Rightarrow> error + 'f portfolio_parser"
where
  "process_file load_file pyfloat self directory filename =
     (case load_file directory filename of
        Inl error_message \<Rightarrow>
          Inr (self\<lparr>errors := errors self @
                 [''File '' @ filename @ '' failed to load: '' @ error_message]\<rparr>)
      | Inr df \<Rightarrow>
          (case validate_dataframe df filename of
             (False, validation_error) \<Rightarrow>
               Inr (self\<lparr>errors := errors self @
                      [''File '' @ filename @ '' validation failed: '' @
                         (case validation_error of Some e \<Rightarrow> e | None \<Rightarrow> ''None'')]\<rparr>)
           | (True, validation_error) \<Rightarrow>
               (case find_transaction_type_column df of
                  Inl e \<Rightarrow> Inl e
                | Inr transaction_type_col \<Rightarrow>
                    (let errs0 =
                           (if transaction_type_col = None then
                              errors self @
                                [''File '' @ filename @ '': Could not find transaction type column. '' @
                                 ''Available columns: '' @ py_repr_list (columns df)]
                            else errors self);
                         (fl, errs) =
                           process_rows pyfloat filename transaction_type_col df 0 (rows df)
                             (no_lists, errs0)
                     in Inr (self\<lparr>purchases := merge_transactions (purchases self) (sort_key date (file_purchases fl)),
                                  sales := merge_transactions (sales self) (sort_key date (file_sales fl)),
                                  dividends := merge_transactions (dividends self) (sort_key date (file_dividends fl)),
                                  taxes := merge_transactions (taxes self) (sort_key date (file_taxes fl)),
                                  transfers := merge_transactions (transfers self) (sort_key date (file_transfers fl)),
                                  errors := errs\<rparr>)))))"

text \<open>
  \<^verbatim>\<open>parse_job\<close>: the loop over the files, then the result; an exception that leaves
  \<^verbatim>\<open>_process_file\<close> leaves \<^verbatim>\<open>parse_job\<close>.
\<close>

fun process_files ::
  "(string \<Rightarrow> string \<Rightarrow> string + 'f dataframe) \<Rightarrow> (string \<Rightarrow> 'f option) \<Rightarrow>
   'f portfolio_parser \<Rightarrow> string \<Rightarrow> string list \<Rightarrow> error + 'f portfolio_parser"
where
  "process_files load_file pyfloat self directory [] = Inr self"
| "process_files load_file pyfloat self directory (filename # files) =
     (case process_file load_file pyfloat self directory filename of
        Inl e \<Rightarrow> Inl e
      | Inr self' \<Rightarrow> process_files load_file pyfloat self' directory files)"

definition parse_job ::
  "(string \<Rightarrow> string \<Rightarrow> string + 'f dataframe) \<Rightarrow> (string \<Rightarrow> 'f option) \<Rightarrow>
   'f portfolio_parser \<Rightarrow> string \<Rightarrow> string list \<Rightarrow> error + 'f parsed_job_result"
where
  "parse_job load_file pyfloat self directory files =
     (case process_files load_file pyfloat self directory files of
        Inl e \<Rightarrow> Inl e
      | Inr self \<Rightarrow>
          Inr \<lparr>jobId = job_id self,
               parsed_job_result.purchases = purchases self,
               parsed_job_result.sales = sales self,
               parsed_job_result.dividends = dividends self,
               parsed_job_result.taxes = taxes self,
               parsed_job_result.transfers = transfers self,
               parsed_job_result.errors = errors self\<rparr>)"


section \<open>Vocabulary of the properties\<close>

text \<open>
  The calendar date a text of the shape \<^verbatim>\<open>dddd-dd-dd\<close> writes, and the ISO calendar
  dates: texts of that shape that \<^verbatim>\<open>strptime\<close> accepts.
\<close>

definition ymd_of :: "string \<Rightarrow> pydate" where
  "ymd_of s =
     (1000 * digit_val (s ! 0) + 100 * digit_val (s ! 1) + 10 * digit_val (s ! 2) + digit_val (s ! 3),
      10 * digit_val (s ! 5) + digit_val (s ! 6), 10 * digit_val (s ! 8) + digit_val (s ! 9))"

definition is_iso_date :: "string \<Rightarrow> bool" where
  "is_iso_date s = (iso_shape s \<and> strptime s fmt_Ymd \<noteq> None)"

text \<open>Every record of the list carries an ISO calendar date.\<close>

definition all_iso :: "'a txn_scheme list \<Rightarrow> bool" where
  "all_iso xs = (\<forall>t \<in> set xs. is_iso_date (date t))"

text \<open>Sorted non-decreasing by date, dates compared as \<^verbatim>\<open>compare_dates\<close> compares them.\<close>

definition sorted_by_date :: "'a txn_scheme list \<Rightarrow> bool" where
  "sorted_by_date xs = sorted_wrt (\<lambda>a b. compare_dates (date a) (date b) \<le> 0) xs"

text \<open>
  The two-pointer merge written by recursion on the two remainders; \<open>sorted_merge\<close> is
  shown to compute it.
\<close>

fun merge_by_date :: "'a txn_scheme list \<Rightarrow> 'a txn_scheme list \<Rightarrow> 'a txn_scheme list" where
  "merge_by_date [] ys = ys"
| "merge_by_date (x # xs) [] = x # xs"
| "merge_by_date (x # xs) (y # ys) =
     (if compare_dates (date x) (date y) \<le> 0 then x # merge_by_date xs (y # ys)
      else y # merge_by_date (x # xs) ys)"

text \<open>
  The groupings of a sequence of batches: a batch alone, or the merge of the results of
  two groupings, the left one as \<open>existing\<close>. \<open>batches\<close> lists the batches from left
  to right, \<open>chain\<close> runs the merges.
\<close>

datatype 'a grouping = Batch "'a list" | Merge "'a grouping" "'a grouping"

fun batches :: "'a grouping \<Rightarrow> 'a list list" where
  "batches (Batch b) = [b]"
| "batches (Merge l r) = batches l @ batches r"

fun chain :: "'a txn_scheme grouping \<Rightarrow> 'a txn_scheme list" where
  "chain (Batch b) = b"
| "chain (Merge l r) = merge_transactions (chain l) (chain r)"

text \<open>
  The cell at a position is absent from a row when the table has no column at that
  position, when the row has no cell under the label of the column, or when that cell is
  missing (\<^verbatim>\<open>NaN\<close>): the cases in which \<open>get_cell_value\<close> returns its default.
\<close>

definition cell_absent :: "'f series \<Rightarrow> 'f dataframe \<Rightarrow> nat \<Rightarrow> bool" where
  "cell_absent row df i =
     (length (columns df) \<le> i \<or>
      (case map_of row (columns df ! i) of None \<Rightarrow> True | Some v \<Rightarrow> isna v))"

text \<open>
  The categorization in the words of the specification: the six keyword lists in their
  order of priority, each with its kind; a text has a keyword of a list when some keyword
  of the list occurs in it, letter case apart; the kind of a text is the kind of the
  first list of which it has a keyword.
\<close>

definition priority :: "(string \<times> string list) list" where
  "priority =
     [(''purchase'', PURCHASE_KEYWORDS), (''sale'', SALE_KEYWORDS),
      (''dividend'', DIVIDEND_KEYWORDS), (''tax'', TAX_KEYWORDS),
      (''deposit'', DEPOSIT_KEYWORDS), (''fee'', FEE_KEYWORDS)]"

definition has_keyword :: "string list \<Rightarrow> string \<Rightarrow> bool" where
  "has_keyword keywords text = list_ex (\<lambda>keyword. contains (lower text) (lower keyword)) keywords"

definition first_kind :: "string \<Rightarrow> string option" where
  "first_kind text = map_option fst (find (\<lambda>(kind, keywords). has_keyword keywords text) priority)"


section \<open>Dates: the order of the texts and the order of the calendar\<close>

lemma code_inj: "code a = code b \<Longrightarrow> a = b"
  unfolding code_def by (rule of_char_eqI)

lemma digit_less_iff: "is_digit a \<Longrightarrow> is_digit b \<Longrightarrow> (a < b) = (digit_val a < digit_val b)"
  by (auto simp: is_digit_def digit_val_def less_char_def code_def)

lemma digit_eq_iff: "is_digit a \<Longrightarrow> is_digit b \<Longrightarrow> (a = b) = (digit_val a = digit_val b)"
  using code_inj[of a b] by (auto simp: is_digit_def digit_val_def)

lemma digit_val_lt10: "is_digit a \<Longrightarrow> digit_val a < 10"
  by (auto simp: is_digit_def digit_val_def)

lemma is_digit_const: "is_digit CHR ''0''" "is_digit CHR ''1''" "is_digit CHR ''2''" "is_digit CHR ''3''"
  "\<not> is_digit CHR ''-''" "\<not> is_digit CHR '' ''" "\<not> is_digit CHR ''/''"
  by (simp_all add: is_digit_def code_def)

lemma digit_val_const: "digit_val CHR ''0'' = 0" "digit_val CHR ''1'' = 1" "digit_val CHR ''2'' = 2" "digit_val CHR ''3'' = 3"
  by (simp_all add: digit_val_def code_def)

lemma digit_is: 
   "is_digit a \<Longrightarrow> (a = CHR ''0'') = (digit_val a = 0)"
   "is_digit a \<Longrightarrow> (a = CHR ''1'') = (digit_val a = 1)"
   "is_digit a \<Longrightarrow> (a = CHR ''2'') = (digit_val a = 2)"
   "is_digit a \<Longrightarrow> (a = CHR ''3'') = (digit_val a = 3)"
   "is_digit a \<Longrightarrow> a \<noteq> CHR ''-''"
   "is_digit a \<Longrightarrow> a \<noteq> CHR '' ''"
  by (simp_all add: digit_eq_iff is_digit_const digit_val_const) (auto simp: is_digit_const)

lemma re_m_step:
  assumes "is_digit a" "is_digit b"
  shows "re_match (Pctm # Lit CHR ''-'' # ds) (a # b # CHR ''-'' # r) (y, m, d) =
     (if 1 \<le> 10 * digit_val a + digit_val b \<and> 10 * digit_val a + digit_val b \<le> 12
      then re_match ds r (y, 10 * digit_val a + digit_val b, d) else [])"
proof -
  consider "digit_val a = 0" | "digit_val a = 1" | "2 \<le> digit_val a"
    by linarith
  then show ?thesis
    using assms digit_val_lt10[OF assms(2)]
    by cases (auto simp: re_m_def digit_is)
qed

lemma days_in_month_le: "days_in_month y m \<le> 31" "28 \<le> days_in_month y m"
  by (auto simp: days_in_month_def)

lemma re_d_end:
  assumes "is_digit a" "is_digit b"
  shows "(case re_match [Pctd] [a, b] (y, m, d) of [] \<Rightarrow> None
          | (dt, rest) # _ \<Rightarrow> (if rest \<noteq> [] then None else if valid_date dt then Some dt else None)) =
     (if valid_date (y, m, 10 * digit_val a + digit_val b) then Some (y, m, 10 * digit_val a + digit_val b) else None)"
proof -
  have v: "valid_date (y, m, k) \<Longrightarrow> 1 \<le> k \<and> k \<le> 31" for k
    using days_in_month_le(1)[of y m] by (auto simp: valid_date_def)
  consider "digit_val a = 0" | "digit_val a = 1" | "digit_val a = 2" | "digit_val a = 3" | "4 \<le> digit_val a"
    by linarith
  then show ?thesis
    using assms digit_val_lt10[OF assms(2)] v[of "10 * digit_val a + digit_val b"]
    by cases (auto simp: re_d_def digit_is)
qed

lemma num2_less: 
  assumes "b < 10" "b' < 10"
  shows "(10 * a + b < 10 * a' + b') = (a < a' \<or> (a = a' \<and> b < (b'::nat)))"
proof -
  consider "a < a'" | "a = a'" | "a' < a" by linarith
  then show ?thesis
  proof cases
    case 1
    then have "10 * a + 10 \<le> 10 * a'" by simp
    with assms 1 show ?thesis by linarith
  next
    case 2
    then show ?thesis by simp
  next
    case 3
    then have "10 * a' + 10 \<le> 10 * a" by simp
    with assms 3 show ?thesis by linarith
  qed
qed

lemma num2_eq:
  assumes "b < 10" "b' < 10"
  shows "(10 * a + b = 10 * a' + b') = (a = a' \<and> b = (b'::nat))"
  using num2_less[OF assms, of a a'] num2_less[OF assms(2) assms(1), of a' a] by auto

lemma num4_shape: "1000 * a + 100 * b + 10 * c + d = 10 * (10 * (10 * a + b) + c) + (d::nat)"
  by simp

lemma num4_less: "b < 10 \<Longrightarrow> c < 10 \<Longrightarrow> d < 10 \<Longrightarrow> b' < 10 \<Longrightarrow> c' < 10 \<Longrightarrow> d' < 10 \<Longrightarrow>
  (1000 * a + 100 * b + 10 * c + d < 1000 * a' + 100 * b' + 10 * c' + d') = 
  (a < a' \<or> (a = a' \<and> (b < b' \<or> (b = b' \<and> (c < c' \<or> (c = c' \<and> d < (d'::nat)))))))"
  unfolding num4_shape by (simp only: num2_less num2_eq) blast

lemma num4_eq: "b < 10 \<Longrightarrow> c < 10 \<Longrightarrow> d < 10 \<Longrightarrow> b' < 10 \<Longrightarrow> c' < 10 \<Longrightarrow> d' < 10 \<Longrightarrow>
  (1000 * a + 100 * b + 10 * c + d = 1000 * a' + 100 * b' + 10 * c' + d') = 
  (a = a' \<and> b = b' \<and> c = c' \<and> d = (d'::nat))"
  unfolding num4_shape by (simp only: num2_eq) blast

lemma len10E:
  assumes "length (s::'a list) = 10"
  obtains a0 a1 a2 a3 a4 a5 a6 a7 a8 a9 where "s = [a0, a1, a2, a3, a4, a5, a6, a7, a8, a9]"
proof -
  from assms have "length s = Suc (Suc (Suc (Suc (Suc (Suc (Suc (Suc (Suc (Suc 0)))))))))"
    by simp
  then show ?thesis
    by (auto simp only: length_Suc_conv length_0_conv intro: that)
qed

lemma iso_shape_expand:
  assumes "iso_shape s"
  shows "s = [s ! 0, s ! 1, s ! 2, s ! 3, CHR ''-'', s ! 5, s ! 6, CHR ''-'', s ! 8, s ! 9]"
proof -
  from assms have "length s = 10" by (simp add: iso_shape_def)
  then obtain a0 a1 a2 a3 a4 a5 a6 a7 a8 a9 where s: "s = [a0, a1, a2, a3, a4, a5, a6, a7, a8, a9]"
    by (rule len10E)
  from assms have "a4 = CHR ''-''" "a7 = CHR ''-''"
    unfolding s iso_shape_def by simp_all
  then show ?thesis unfolding s by simp
qed

lemma iso_shape_digits:
  assumes "iso_shape s"
  shows "is_digit (s ! 0)" "is_digit (s ! 1)" "is_digit (s ! 2)" "is_digit (s ! 3)"
    "is_digit (s ! 5)" "is_digit (s ! 6)" "is_digit (s ! 8)" "is_digit (s ! 9)"
  using assms by (simp_all add: iso_shape_def)

lemma ymd_of_Cons:
  "ymd_of [y1, y2, y3, y4, h1, m1, m2, h2, d1, d2] =
     (1000 * digit_val y1 + 100 * digit_val y2 + 10 * digit_val y3 + digit_val y4,
      10 * digit_val m1 + digit_val m2, 10 * digit_val d1 + digit_val d2)"
  by (simp add: ymd_of_def)

lemma re_Y_step:
  assumes "is_digit y1" "is_digit y2" "is_digit y3" "is_digit y4"
  shows "re_match (PctY # Lit CHR ''-'' # ds) (y1 # y2 # y3 # y4 # CHR ''-'' # r) (y, m, d) =
      re_match ds r (1000 * digit_val y1 + 100 * digit_val y2 + 10 * digit_val y3 + digit_val y4, m, d)"
  using assms by (simp add: re_Y_def)

lemma month_range_valid: "\<not> (1 \<le> M \<and> M \<le> 12) \<Longrightarrow> \<not> valid_date (Y, M, D)"
  by (auto simp: valid_date_def)

lemma strptime_iso_chars:
  assumes dg: "is_digit y1" "is_digit y2" "is_digit y3" "is_digit y4"
        "is_digit m1" "is_digit m2" "is_digit d1" "is_digit d2"
  shows "strptime [y1, y2, y3, y4, CHR ''-'', m1, m2, CHR ''-'', d1, d2] fmt_Ymd =
    (if valid_date (1000 * digit_val y1 + 100 * digit_val y2 + 10 * digit_val y3 + digit_val y4,
          10 * digit_val m1 + digit_val m2, 10 * digit_val d1 + digit_val d2)
     then Some (1000 * digit_val y1 + 100 * digit_val y2 + 10 * digit_val y3 + digit_val y4,
          10 * digit_val m1 + digit_val m2, 10 * digit_val d1 + digit_val d2)
     else None)"
proof -
  let ?Y = "1000 * digit_val y1 + 100 * digit_val y2 + 10 * digit_val y3 + digit_val y4"
  let ?M = "10 * digit_val m1 + digit_val m2"
  let ?D = "10 * digit_val d1 + digit_val d2"
  have 1: "re_match fmt_Ymd [y1, y2, y3, y4, CHR ''-'', m1, m2, CHR ''-'', d1, d2] (1900, 1, 1) =
      (if 1 \<le> ?M \<and> ?M \<le> 12 then re_match [Pctd] [d1, d2] (?Y, ?M, 1) else [])"
    unfolding fmt_Ymd_def
    by (simp only: re_Y_step[OF dg(1-4)] re_m_step[OF dg(5,6)])
  show ?thesis
  proof (cases "1 \<le> ?M \<and> ?M \<le> 12")
    case True
    then show ?thesis
      unfolding strptime_def 1 by (simp only: simp_thms if_True re_d_end[OF dg(7,8)])
  next
    case False
    from month_range_valid[OF False] show ?thesis
      unfolding strptime_def 1 by (simp only: False if_False list.case)
  qed
qed

lemma strptime_iso:
  assumes "iso_shape s"
  shows "strptime s fmt_Ymd = (if valid_date (ymd_of s) then Some (ymd_of s) else None)"
proof -
  have "strptime s fmt_Ymd =
    strptime [s ! 0, s ! 1, s ! 2, s ! 3, CHR ''-'', s ! 5, s ! 6, CHR ''-'', s ! 8, s ! 9] fmt_Ymd"
    by (rule arg_cong[where f = "\<lambda>x. strptime x fmt_Ymd"]) (rule iso_shape_expand[OF assms])
  then show ?thesis
    unfolding strptime_iso_chars[OF iso_shape_digits[OF assms]] ymd_of_def .
qed

lemma append_less_same_length:
  "length a = length b \<Longrightarrow> (a @ x < b @ y) = (a < b \<or> (a = b \<and> x < (y::string)))"
  by (induction a b rule: list_induct2) auto

lemma digits4_less:
  assumes "is_digit y1" "is_digit y2" "is_digit y3" "is_digit y4"
    "is_digit z1" "is_digit z2" "is_digit z3" "is_digit z4"
  shows "([y1, y2, y3, y4] < [z1, z2, z3, z4]) =
    (1000 * digit_val y1 + 100 * digit_val y2 + 10 * digit_val y3 + digit_val y4
      < 1000 * digit_val z1 + 100 * digit_val z2 + 10 * digit_val z3 + digit_val z4)"
  using assms
  by (simp add: digit_less_iff digit_eq_iff num4_less digit_val_lt10)

lemma digits4_eq:
  assumes "is_digit y1" "is_digit y2" "is_digit y3" "is_digit y4"
    "is_digit z1" "is_digit z2" "is_digit z3" "is_digit z4"
  shows "([y1, y2, y3, y4] = [z1, z2, z3, z4]) =
    (1000 * digit_val y1 + 100 * digit_val y2 + 10 * digit_val y3 + digit_val y4
      = 1000 * digit_val z1 + 100 * digit_val z2 + 10 * digit_val z3 + digit_val z4)"
  using assms
  by (simp add: digit_eq_iff num4_eq digit_val_lt10)

lemma digits2_less:
  assumes "is_digit y1" "is_digit y2" "is_digit z1" "is_digit z2"
  shows "([y1, y2] < [z1, z2]) = (10 * digit_val y1 + digit_val y2 < 10 * digit_val z1 + digit_val z2)"
  using assms
  by (simp add: digit_less_iff digit_eq_iff num2_less digit_val_lt10)

lemma digits2_eq:
  assumes "is_digit y1" "is_digit y2" "is_digit z1" "is_digit z2"
  shows "([y1, y2] = [z1, z2]) = (10 * digit_val y1 + digit_val y2 = 10 * digit_val z1 + digit_val z2)"
  using assms
  by (simp add: digit_eq_iff num2_eq digit_val_lt10)

lemma iso_less_chars:
  assumes dg: "is_digit y1" "is_digit y2" "is_digit y3" "is_digit y4"
        "is_digit m1" "is_digit m2" "is_digit d1" "is_digit d2"
    and dh: "is_digit z1" "is_digit z2" "is_digit z3" "is_digit z4"
        "is_digit n1" "is_digit n2" "is_digit e1" "is_digit e2"
  shows "([y1, y2, y3, y4, CHR ''-'', m1, m2, CHR ''-'', d1, d2]
          < [z1, z2, z3, z4, CHR ''-'', n1, n2, CHR ''-'', e1, e2]) =
     dt_less (1000 * digit_val y1 + 100 * digit_val y2 + 10 * digit_val y3 + digit_val y4,
          10 * digit_val m1 + digit_val m2, 10 * digit_val d1 + digit_val d2)
        (1000 * digit_val z1 + 100 * digit_val z2 + 10 * digit_val z3 + digit_val z4,
          10 * digit_val n1 + digit_val n2, 10 * digit_val e1 + digit_val e2)"
proof -
  have s': "[y1, y2, y3, y4, CHR ''-'', m1, m2, CHR ''-'', d1, d2] =
        [y1, y2, y3, y4] @ CHR ''-'' # [m1, m2] @ CHR ''-'' # [d1, d2]"
    and t': "[z1, z2, z3, z4, CHR ''-'', n1, n2, CHR ''-'', e1, e2] =
         [z1, z2, z3, z4] @ CHR ''-'' # [n1, n2] @ CHR ''-'' # [e1, e2]"
    by simp_all
  have "([y1, y2, y3, y4, CHR ''-'', m1, m2, CHR ''-'', d1, d2]
          < [z1, z2, z3, z4, CHR ''-'', n1, n2, CHR ''-'', e1, e2]) =
      ([y1, y2, y3, y4] < [z1, z2, z3, z4] \<or> [y1, y2, y3, y4] = [z1, z2, z3, z4] \<and>
      ([m1, m2] < [n1, n2] \<or> [m1, m2] = [n1, n2] \<and> [d1, d2] < [e1, e2]))"
    unfolding s' t'
    by (simp only: append_less_same_length length_Cons list.size Cons_less_Cons less_irrefl simp_thms)
  also have "\<dots> = dt_less (1000 * digit_val y1 + 100 * digit_val y2 + 10 * digit_val y3 + digit_val y4,
          10 * digit_val m1 + digit_val m2, 10 * digit_val d1 + digit_val d2)
        (1000 * digit_val z1 + 100 * digit_val z2 + 10 * digit_val z3 + digit_val z4,
          10 * digit_val n1 + digit_val n2, 10 * digit_val e1 + digit_val e2)"
    unfolding digits4_less[OF dg(1-4) dh(1-4)] digits4_eq[OF dg(1-4) dh(1-4)]
      digits2_less[OF dg(5,6) dh(5,6)] digits2_eq[OF dg(5,6) dh(5,6)] digits2_less[OF dg(7,8) dh(7,8)]
    by (simp only: dt_less_def prod.case)
  finally show ?thesis .
qed

lemma iso_less_iff:
  assumes "iso_shape s" "iso_shape t"
  shows "(s < t) = dt_less (ymd_of s) (ymd_of t)"
proof -
  have "(s < t) = ([s ! 0, s ! 1, s ! 2, s ! 3, CHR ''-'', s ! 5, s ! 6, CHR ''-'', s ! 8, s ! 9]
     < [t ! 0, t ! 1, t ! 2, t ! 3, CHR ''-'', t ! 5, t ! 6, CHR ''-'', t ! 8, t ! 9])"
    by (rule arg_cong2[where f = "(<)"]) (rule iso_shape_expand[OF assms(1)], rule iso_shape_expand[OF assms(2)])
  then show ?thesis
    unfolding iso_less_chars[OF iso_shape_digits[OF assms(1)] iso_shape_digits[OF assms(2)]] ymd_of_def .
qed

lemma is_iso_date_strptime: "is_iso_date a \<Longrightarrow> strptime a fmt_Ymd = Some (ymd_of a)"
  by (auto simp: is_iso_date_def strptime_iso split: if_splits)

lemma compare_dates_iso:
  assumes "is_iso_date a" "is_iso_date b"
  shows "compare_dates a b = (if a < b then - 1 else if b < a then 1 else 0)"
proof -
  from assms have sh: "iso_shape a" "iso_shape b" by (simp_all add: is_iso_date_def)
  show ?thesis
    by (simp add: compare_dates_def is_iso_date_strptime[OF assms(1)] is_iso_date_strptime[OF assms(2)]
          iso_less_iff[OF sh] iso_less_iff[OF sh(2) sh(1)])
qed

lemma compare_dates_le_iso:
  assumes "is_iso_date a" "is_iso_date b"
  shows "(compare_dates a b \<le> 0) = (a \<le> b)" "(compare_dates a b < 0) = (a < b)"
    "(compare_dates a b > 0) = (b < a)"
  using compare_dates_iso[OF assms] by auto

declare sorted_merge_loop.simps [simp del]

lemma merge_by_date_Nil2 [simp]: "merge_by_date xs [] = xs"
  by (cases xs) simp_all

lemma sorted_merge_loop_eq:
  "sorted_merge_loop e n i j r = r @ merge_by_date (drop i e) (drop j n)"
proof (induction e n i j r rule: sorted_merge_loop.induct)
  case (1 e n i j r)
  show ?case
  proof (cases "i < length e \<and> j < length n")
    case True
    then have de: "drop i e = e ! i # drop (Suc i) e" and dn: "drop j n = n ! j # drop (Suc j) n"
      by (simp_all add: Cons_nth_drop_Suc)
    show ?thesis
    proof (cases "compare_dates (date (e ! i)) (date (n ! j)) \<le> 0")
      case c: True
      have "sorted_merge_loop e n i j r = sorted_merge_loop e n (i + 1) j (r @ [e ! i])"
        using True c by (subst sorted_merge_loop.simps) (simp add: get_transaction_date_def)
      also have "\<dots> = (r @ [e ! i]) @ merge_by_date (drop (i + 1) e) (drop j n)"
        using True c by (intro "1.IH"(1)) (simp_all add: get_transaction_date_def)
      also have "\<dots> = r @ merge_by_date (drop i e) (drop j n)"
        using c by (simp add: de dn[symmetric]) (simp add: dn)
      finally show ?thesis .
    next
      case c: False
      have "sorted_merge_loop e n i j r = sorted_merge_loop e n i (j + 1) (r @ [n ! j])"
        using True c by (subst sorted_merge_loop.simps) (simp add: get_transaction_date_def)
      also have "\<dots> = (r @ [n ! j]) @ merge_by_date (drop i e) (drop (j + 1) n)"
        using True c by (intro "1.IH"(2)) (simp_all add: get_transaction_date_def)
      also have "\<dots> = r @ merge_by_date (drop i e) (drop j n)"
        using c by (simp add: dn de[symmetric]) (simp add: de)
      finally show ?thesis .
    qed
  next
    case False
    then have "drop i e = [] \<or> drop j n = []" by auto
    then have "merge_by_date (drop i e) (drop j n) = drop i e @ drop j n" by auto
    moreover have "sorted_merge_loop e n i j r = r @ drop i e @ drop j n"
      by (subst sorted_merge_loop.simps) (simp only: False if_False)
    ultimately show ?thesis by simp
  qed
qed

lemma sorted_merge_eq: "sorted_merge existing new = merge_by_date existing new"
  by (simp add: sorted_merge_def sorted_merge_loop_eq)

lemma merge_by_date_shuffles: "merge_by_date xs ys \<in> shuffles xs ys"
  by (induction xs ys rule: merge_by_date.induct)
     (auto intro: Cons_in_shuffles_leftI Cons_in_shuffles_rightI)

lemma set_merge_by_date: "set (merge_by_date xs ys) = set xs \<union> set ys"
  by (rule set_shuffles[OF merge_by_date_shuffles])

lemma mset_shuffles: "zs \<in> shuffles xs ys \<Longrightarrow> mset zs = mset xs + mset ys"
  by (induction xs ys arbitrary: zs rule: shuffles.induct) auto

lemma all_iso_Cons [simp]: "all_iso (x # xs) = (is_iso_date (date x) \<and> all_iso xs)"
  by (simp add: all_iso_def)

lemma all_iso_Nil [simp]: "all_iso []"
  by (simp add: all_iso_def)

lemma all_iso_append [simp]: "all_iso (xs @ ys) = (all_iso xs \<and> all_iso ys)"
  by (auto simp: all_iso_def)

lemma all_isoD: "all_iso xs \<Longrightarrow> t \<in> set xs \<Longrightarrow> is_iso_date (date t)"
  by (simp add: all_iso_def)

lemma merge_by_date_sorted:
  "all_iso xs \<Longrightarrow> all_iso ys \<Longrightarrow> sorted (map date xs) \<Longrightarrow> sorted (map date ys) \<Longrightarrow>
   sorted (map date (merge_by_date xs ys))"
proof (induction xs ys rule: merge_by_date.induct)
  case (3 x xs y ys)
  then have iso: "is_iso_date (date x)" "is_iso_date (date y)" by simp_all
  show ?case
  proof (cases "compare_dates (date x) (date y) \<le> 0")
    case True
    then have le: "date x \<le> date y" using compare_dates_le_iso(1)[OF iso] by simp
    from 3 True have "sorted (map date (merge_by_date xs (y # ys)))" by simp
    moreover have "\<forall>t \<in> set (merge_by_date xs (y # ys)). date x \<le> date t"
      using "3.prems"(3,4) le by (auto simp: set_merge_by_date)
    ultimately show ?thesis using True by simp
  next
    case False
    then have le: "date y < date x" using compare_dates_le_iso(1)[OF iso] by simp
    from 3 False have "sorted (map date (merge_by_date (x # xs) ys))" by simp
    moreover have "\<forall>t \<in> set (merge_by_date (x # xs) ys). date y \<le> date t"
      using "3.prems"(3,4) le by (auto simp: set_merge_by_date)
    ultimately show ?thesis using False by simp
  qed
qed simp_all

lemma merge_by_date_stable:
  "all_iso xs \<Longrightarrow> all_iso ys \<Longrightarrow> sorted (map date xs) \<Longrightarrow> sorted (map date ys) \<Longrightarrow>
   filter (\<lambda>t. date t = d) (merge_by_date xs ys) =
     filter (\<lambda>t. date t = d) xs @ filter (\<lambda>t. date t = d) ys"
proof (induction xs ys rule: merge_by_date.induct)
  case (3 x xs y ys)
  then have iso: "is_iso_date (date x)" "is_iso_date (date y)" by simp_all
  show ?case
  proof (cases "compare_dates (date x) (date y) \<le> 0")
    case True
    with 3 show ?thesis by simp
  next
    case False
    then have lt: "date y < date x" using compare_dates_le_iso(1)[OF iso] by simp
    have ih: "filter (\<lambda>t. date t = d) (merge_by_date (x # xs) ys) =
        filter (\<lambda>t. date t = d) (x # xs) @ filter (\<lambda>t. date t = d) ys"
      using 3 False by simp
    show ?thesis
    proof (cases "date y = d")
      case True
      have "filter (\<lambda>t. date t = d) (x # xs) = []"
        using "3.prems"(3) lt True by (auto simp: filter_empty_conv)
      with ih False True show ?thesis by simp
    next
      case ne: False
      with ih False show ?thesis by simp
    qed
  qed
qed simp_all

lemma sorted_hd_le: "sorted l \<Longrightarrow> x \<in> set l \<Longrightarrow> hd l \<le> x"
  by (cases l) auto

lemma sorted_le_last: "sorted l \<Longrightarrow> x \<in> set l \<Longrightarrow> x \<le> last l"
  by (induction l) auto

lemma get_date_boundaries_eq:
  assumes "xs \<noteq> []"
  shows "get_date_boundaries (map (\<lambda>t. Some (get_transaction_date t)) xs) =
      (Some (hd (sort (map date xs))), Some (last (sort (map date xs))))"
proof -
  let ?ds = "map date xs"
  have v: "map the (filter (\<lambda>d. d \<noteq> None) (map (\<lambda>t. Some (get_transaction_date t)) xs)) = ?ds"
    by (induction xs) (simp_all add: get_transaction_date_def)
  have n: "map (\<lambda>t. Some (get_transaction_date t)) xs \<noteq> []" "?ds \<noteq> []"
    using assms by simp_all
  show ?thesis
    unfolding get_date_boundaries_def Let_def v by (simp only: n if_False)
qed

lemma date_bounds:
  assumes "xs \<noteq> []"
  shows "hd (sort (map date xs)) \<in> date ` set xs" "last (sort (map date xs)) \<in> date ` set xs"
    "t \<in> set xs \<Longrightarrow> hd (sort (map date xs)) \<le> date t"
    "t \<in> set xs \<Longrightarrow> date t \<le> last (sort (map date xs))"
proof -
  let ?ds = "map date xs"
  have ne: "sort ?ds \<noteq> []" using assms by (metis length_0_conv length_map length_sort)
  have "hd (sort ?ds) \<in> set (sort ?ds)" "last (sort ?ds) \<in> set (sort ?ds)"
    using ne by (rule hd_in_set, rule last_in_set)
  then show "hd (sort ?ds) \<in> date ` set xs" "last (sort ?ds) \<in> date ` set xs" by simp_all
  show "t \<in> set xs \<Longrightarrow> hd (sort ?ds) \<le> date t" by (rule sorted_hd_le) simp_all
  show "t \<in> set xs \<Longrightarrow> date t \<le> last (sort ?ds)" by (rule sorted_le_last) simp_all
qed

lemma append_in_shuffles: "xs @ ys \<in> shuffles xs ys"
  by (induction xs) (simp_all add: Cons_in_shuffles_leftI)

lemma append_in_shuffles': "ys @ xs \<in> shuffles xs ys"
  using append_in_shuffles[of ys xs] by (simp add: shuffles_commutes)

lemma merge_transactions_unfold:
  assumes "existing \<noteq> []" "new \<noteq> []"
  shows "merge_transactions existing new =
       (if compare_dates (last (sort (map date new))) (hd (sort (map date existing))) < 0
        then new @ existing
        else if compare_dates (hd (sort (map date new))) (last (sort (map date existing))) > 0
        then existing @ new
        else merge_by_date existing new)"
  using assms
  by (simp add: merge_transactions_def get_date_boundaries_eq sorted_merge_eq)

lemma merge_transactions_shuffles: "merge_transactions existing new \<in> shuffles existing new"
proof (cases "new = [] \<or> existing = []")
  case True
  then show ?thesis by (auto simp: merge_transactions_def)
next
  case False
  then have ne: "existing \<noteq> []" "new \<noteq> []" by simp_all
  show ?thesis
    unfolding merge_transactions_unfold[OF ne]
    by (simp add: append_in_shuffles append_in_shuffles' merge_by_date_shuffles)
qed

lemma merge_transactions_sorted_stable:
  assumes iso: "all_iso existing" "all_iso new"
    and srt: "sorted (map date existing)" "sorted (map date new)"
  shows "sorted (map date (merge_transactions existing new)) \<and>
    (\<forall>d. filter (\<lambda>t. date t = d) (merge_transactions existing new) =
       filter (\<lambda>t. date t = d) existing @ filter (\<lambda>t. date t = d) new)"
proof (cases "new = [] \<or> existing = []")
  case True
  then show ?thesis using srt by (auto simp: merge_transactions_def)
next
  case False
  then have ne: "existing \<noteq> []" "new \<noteq> []" by simp_all
  let ?elo = "hd (sort (map date existing))" and ?ehi = "last (sort (map date existing))"
  let ?nlo = "hd (sort (map date new))" and ?nhi = "last (sort (map date new))"
  note m = merge_transactions_unfold[OF ne]
  note be = date_bounds[OF ne(1)] and bn = date_bounds[OF ne(2)]
  have i: "is_iso_date ?elo" "is_iso_date ?ehi" "is_iso_date ?nlo" "is_iso_date ?nhi"
    using be(1,2) bn(1,2) iso by (auto simp: all_iso_def)
  consider (pre) "compare_dates ?nhi ?elo < 0"
    | (app) "\<not> compare_dates ?nhi ?elo < 0" "compare_dates ?nlo ?ehi > 0"
    | (ovl) "\<not> compare_dates ?nhi ?elo < 0" "\<not> compare_dates ?nlo ?ehi > 0"
    by blast
  then show ?thesis
  proof cases
    case pre
    then have lt: "?nhi < ?elo" using compare_dates_le_iso(2)[OF i(4) i(1)] by simp
    have sep: "date a < date b" if "a \<in> set new" "b \<in> set existing" for a b
      using bn(4)[OF that(1)] be(3)[OF that(2)] lt by (meson le_less_trans less_le_trans)
    have r: "merge_transactions existing new = new @ existing" using m pre by simp
    have "sorted (map date (new @ existing))"
      using srt sep by (auto simp: sorted_append less_imp_le)
    moreover have "filter (\<lambda>t. date t = d) (new @ existing) =
        filter (\<lambda>t. date t = d) existing @ filter (\<lambda>t. date t = d) new" for d
    proof (cases "filter (\<lambda>t. date t = d) new = []")
      case True
      then show ?thesis by simp
    next
      case False
      then obtain a where "a \<in> set new" "date a = d" by (auto simp: filter_empty_conv)
      have "date b \<noteq> d" if "b \<in> set existing" for b
        using sep[OF \<open>a \<in> set new\<close> that] \<open>date a = d\<close> by simp
      then have "filter (\<lambda>t. date t = d) existing = []" by (simp add: filter_empty_conv)
      then show ?thesis by simp
    qed
    ultimately show ?thesis unfolding r by blast
  next
    case app
    then have lt: "?ehi < ?nlo" using compare_dates_le_iso(3)[OF i(3) i(2)] by simp
    have sep: "date a < date b" if "a \<in> set existing" "b \<in> set new" for a b
      using be(4)[OF that(1)] bn(3)[OF that(2)] lt by (meson le_less_trans less_le_trans)
    have r: "merge_transactions existing new = existing @ new" using m app by simp
    have "sorted (map date (existing @ new))"
      using srt sep by (auto simp: sorted_append less_imp_le)
    then show ?thesis unfolding r by simp
  next
    case ovl
    then have r: "merge_transactions existing new = merge_by_date existing new" using m by simp
    show ?thesis unfolding r
      using merge_by_date_sorted[OF iso srt] merge_by_date_stable[OF iso srt] by blast
  qed
qed

lemma merge_transactions_sort_key:
  assumes "all_iso existing" "all_iso new" "sorted (map date existing)" "sorted (map date new)"
  shows "merge_transactions existing new = sort_key date (existing @ new)"
proof (rule sym, rule properties_for_sort_key)
  show "mset (merge_transactions existing new) = mset (existing @ new)"
    using mset_shuffles[OF merge_transactions_shuffles[of existing new]] by simp
  show "sorted (map date (merge_transactions existing new))"
    using merge_transactions_sorted_stable[OF assms] by blast
  fix k
  have "{#t \<in># mset x. date k = date t#} = {#t \<in># mset x. date t = date k#}" for x :: "'a txn_scheme list"
    by (rule filter_mset_cong) auto
  have e: "filter (\<lambda>x. date k = date x) zs = filter (\<lambda>t. date t = date k) zs" for zs :: "'a txn_scheme list"
    by (rule filter_cong) auto
  show "filter (\<lambda>x. date k = date x) (merge_transactions existing new) =
      filter (\<lambda>x. date k = date x) (existing @ new)"
    unfolding e using merge_transactions_sorted_stable[OF assms] by simp
qed

lemma all_iso_merge:
  "all_iso existing \<Longrightarrow> all_iso new \<Longrightarrow> all_iso (merge_transactions existing new)"
  using set_shuffles[OF merge_transactions_shuffles[of existing new]]
  by (auto simp: all_iso_def)

lemma sorted_by_date_iso:
  assumes "all_iso xs"
  shows "sorted_by_date xs = sorted (map date xs)"
proof -
  have "sorted_wrt (\<lambda>a b. compare_dates (date a) (date b) \<le> 0) xs =
      sorted_wrt (\<lambda>a b. date a \<le> date b) xs"
    using assms
    by (intro iffI; elim sorted_wrt_mono_rel[rotated])
       (auto simp: all_iso_def compare_dates_le_iso(1))
  then show ?thesis by (simp add: sorted_by_date_def sorted_map)
qed

lemma is_iso_dateI: "iso_shape s \<Longrightarrow> valid_date (ymd_of s) \<Longrightarrow> is_iso_date s"
  by (simp add: is_iso_date_def strptime_iso)

lemmas date_eval = iso_shape_def is_digit_def code_def ymd_of_def digit_val_def valid_date_def
  days_in_month_def is_leap_def

lemma iso_2023_01_15: "is_iso_date ''2023-01-15''"
  by (rule is_iso_dateI) (simp_all add: date_eval)

lemma iso_2023_02_01: "is_iso_date ''2023-02-01''"
  by (rule is_iso_dateI) (simp_all add: date_eval)

lemma iso_2023_03_01: "is_iso_date ''2023-03-01''"
  by (rule is_iso_dateI) (simp_all add: date_eval)

lemma iso_2023_01_01: "is_iso_date ''2023-01-01''"
  by (rule is_iso_dateI) (simp_all add: date_eval)

lemma iso_2023_04_01: "is_iso_date ''2023-04-01''"
  by (rule is_iso_dateI) (simp_all add: date_eval)

subsection \<open>Chains of merges\<close>


lemma sort_key_append_sort_key:
  "sort_key f (sort_key f xs @ sort_key f ys) = sort_key f (xs @ ys)"
proof (rule sym, rule properties_for_sort_key)
  show "mset (sort_key f (sort_key f xs @ sort_key f ys)) = mset (xs @ ys)"
    by simp
  show "sorted (map f (sort_key f (sort_key f xs @ sort_key f ys)))"
    by simp
  fix k
  have "filter (\<lambda>x. f k = f x) (sort_key f (sort_key f xs @ sort_key f ys)) =
        filter (\<lambda>x. f x = f k) (sort_key f (sort_key f xs @ sort_key f ys))"
    by (rule filter_cong) auto
  also have "\<dots> = filter (\<lambda>x. f x = f k) (sort_key f xs @ sort_key f ys)"
    by (rule sort_key_stable)
  also have "\<dots> = filter (\<lambda>x. f x = f k) xs @ filter (\<lambda>x. f x = f k) ys"
    by (simp add: sort_key_stable)
  also have "\<dots> = filter (\<lambda>x. f k = f x) (xs @ ys)"
    unfolding filter_append[symmetric] by (rule filter_cong) auto
  finally show "filter (\<lambda>x. f k = f x) (sort_key f (sort_key f xs @ sort_key f ys)) =
        filter (\<lambda>x. f k = f x) (xs @ ys)" .
qed

lemma sort_key_id_sorted: "sorted (map f xs) \<Longrightarrow> sort_key f xs = xs"
  by (rule sort_key_id_if_sorted)

lemma chain_sort_key:
  "(\<forall>b \<in> set (batches g). all_iso b \<and> sorted (map date b)) \<Longrightarrow>
   chain g = sort_key date (concat (batches g)) \<and> all_iso (chain g)"
proof (induction g)
  case (Batch b)
  then show ?case by (simp add: sort_key_id_if_sorted)
next
  case (Merge l r)
  then have l: "chain l = sort_key date (concat (batches l))" "all_iso (chain l)"
    and r: "chain r = sort_key date (concat (batches r))" "all_iso (chain r)"
    by auto
  have sl: "sorted (map date (chain l))" "sorted (map date (chain r))"
    unfolding l(1) r(1) by simp_all
  have "chain (Merge l r) = sort_key date (chain l @ chain r)"
    by (simp add: merge_transactions_sort_key[OF l(2) r(2) sl])
  also have "\<dots> = sort_key date (concat (batches l) @ concat (batches r))"
    unfolding l(1) r(1) by (rule sort_key_append_sort_key)
  finally show ?case using all_iso_merge[OF l(2) r(2)] by simp
qed

lemma merge_transactions_Nil: "merge_transactions a [] = a" "merge_transactions [] b = b"
  by (simp_all add: merge_transactions_def)

lemma merge_transactions_assoc:
  assumes "all_iso a" "all_iso b" "all_iso c"
    "sorted (map date a)" "sorted (map date b)" "sorted (map date c)"
  shows "merge_transactions (merge_transactions a b) c = merge_transactions a (merge_transactions b c)"
  using chain_sort_key[of "Merge (Merge (Batch a) (Batch b)) (Batch c)"]
    chain_sort_key[of "Merge (Batch a) (Merge (Batch b) (Batch c))"] assms
  by simp

subsection \<open>Comparison of malformed dates\<close>



lemma compare_dates_malformed:
  "strptime d1 fmt_Ymd = None \<or> strptime d2 fmt_Ymd = None \<Longrightarrow> compare_dates d1 d2 = 0"
  by (auto simp: compare_dates_def split: option.splits)



lemma simple_merge_props:
  "mset (simple_merge existing new) = mset existing + mset new"
  "sorted (map date (simple_merge existing new))"
  "filter (\<lambda>t. date t = d) (simple_merge existing new) =
     filter (\<lambda>t. date t = d) existing @ filter (\<lambda>t. date t = d) new"
proof -
  have g: "get_transaction_date = date"
    by (rule ext) (simp add: get_transaction_date_def)
  show "mset (simple_merge existing new) = mset existing + mset new"
    by (simp add: simple_merge_def)
  show "sorted (map date (simple_merge existing new))"
    by (simp add: simple_merge_def g)
  show "filter (\<lambda>t. date t = d) (simple_merge existing new) =
     filter (\<lambda>t. date t = d) existing @ filter (\<lambda>t. date t = d) new"
    by (simp add: simple_merge_def g sort_key_stable)
qed


lemma strptime_2023_02_30: "strptime ''2023-02-30'' fmt_Ymd = None"
  by (subst strptime_iso) (simp_all add: date_eval)

lemma strptime_2023_00_00: "strptime ''2023-00-00'' fmt_Ymd = None"
  by (subst strptime_iso) (simp_all add: date_eval)

lemma compare_dates_2023_00_00: "compare_dates ''2023-00-00'' d = 0" "compare_dates d ''2023-00-00'' = 0"
  by (simp_all add: compare_dates_malformed strptime_2023_00_00)

lemma regex_2023_00_00: "iso_regex_match ''2023-00-00''"
  by (simp add: iso_regex_match_def iso_shape_def is_digit_def code_def)


subsection \<open>The transforms\<close>


lemma transform_to_purchase_None_iff:
  "(transform_to_purchase pyfloat row df = None) =
     (parse_date (get_cell_value row df 0 PyNone) = None \<or>
      parse_float pyfloat (get_cell_value row df 4 PyNone) = None \<or>
      parse_float pyfloat (get_cell_value row df 5 PyNone) = None)"
  by (simp add: transform_to_purchase_def Let_def split: option.splits)

lemma transform_to_purchase_SomeD:
  assumes "transform_to_purchase pyfloat row df = Some p"
  shows "parse_date (get_cell_value row df 0 PyNone) = Some (date p)"
    "parse_float pyfloat (get_cell_value row df 4 PyNone) = Some (purchase.quantity p)"
    "parse_float pyfloat (get_cell_value row df 5 PyNone) = Some (purchase.unit_price p)"
    "purchase.currency p = currency_of row df"
    "purchase.company_symbol p =
       (if truthy (get_cell_value row df 3 (Str [])) then py_str (get_cell_value row df 3 (Str []))
        else [])"
    "purchase.transaction_fee p = parse_float pyfloat (get_cell_value row df 7 PyNone)"
    "purchase.proceeds_foreign p = parse_float pyfloat (get_cell_value row df 9 PyNone)"
    "purchase.proceeds_ils p = parse_float pyfloat (get_cell_value row df 10 PyNone)"
  using assms
  by (auto simp: transform_to_purchase_def Let_def split: option.splits)

lemma get_cell_value_absent: "cell_absent row df i \<Longrightarrow> get_cell_value row df i dflt = dflt"
  by (auto simp: get_cell_value_def cell_absent_def split: option.splits)

lemma get_cell_value_present:
  "i < length (columns df) \<Longrightarrow> map_of row (columns df ! i) = Some v \<Longrightarrow> \<not> isna v \<Longrightarrow>
   get_cell_value row df i dflt = v"
  by (auto simp: get_cell_value_def)

lemma transform_to_sale_None_iff:
  "(transform_to_sale pyfloat row df = None) = (transform_to_purchase pyfloat row df = None)"
  by (simp add: transform_to_sale_def split: option.splits)

lemma transform_to_sale_SomeD:
  assumes "transform_to_sale pyfloat row df = Some s" "transform_to_purchase pyfloat row df = Some p"
  shows "date s = date p" "sale.company_symbol s = purchase.company_symbol p"
    "sale.quantity s = purchase.quantity p" "sale.unit_price s = purchase.unit_price p"
    "sale.currency s = purchase.currency p" "sale.transaction_fee s = purchase.transaction_fee p"
    "sale.proceeds_foreign s = purchase.proceeds_foreign p"
    "sale.proceeds_ils s = purchase.proceeds_ils p"
  using assms by (auto simp: transform_to_sale_def)


lemma currency_of_default:
  "cell_absent row df 6 \<or> strip (py_str (get_cell_value row df 6 (Str []))) = [] \<Longrightarrow>
   currency_of row df = ''USD''"
  by (auto simp: currency_of_def Let_def get_cell_value_absent strip_def)

lemma amount_of_first:
  "amount_of pyfloat row df =
     (case parse_float pyfloat (get_cell_value row df 9 PyNone) of
        Some a \<Rightarrow> Some a
      | None \<Rightarrow>
          (case parse_float pyfloat (get_cell_value row df 10 PyNone) of
             Some a \<Rightarrow> Some a
           | None \<Rightarrow> parse_float pyfloat (get_cell_value row df 5 PyNone)))"
  by (simp add: amount_of_def Let_def split: option.splits)

lemma amount_of_None_iff:
  "(amount_of pyfloat row df = None) =
     (parse_float pyfloat (get_cell_value row df 9 PyNone) = None \<and>
      parse_float pyfloat (get_cell_value row df 10 PyNone) = None \<and>
      parse_float pyfloat (get_cell_value row df 5 PyNone) = None)"
  by (simp add: amount_of_first split: option.splits)

lemma transform_to_dividend_amount:
  "(transform_to_dividend pyfloat row df symbol_given = None) =
     (parse_date (get_cell_value row df 0 PyNone) = None \<or> amount_of pyfloat row df = None)"
  "transform_to_dividend pyfloat row df symbol_given = Some d \<Longrightarrow>
     amount_of pyfloat row df = Some (dividend.amount d) \<and>
     parse_date (get_cell_value row df 0 PyNone) = Some (date d)"
  by (auto simp: transform_to_dividend_def Let_def split: option.splits)

lemma transform_to_tax_amount:
  "(transform_to_tax pyfloat row df symbol_given = None) =
     (parse_date (get_cell_value row df 0 PyNone) = None \<or> amount_of pyfloat row df = None)"
  "transform_to_tax pyfloat row df symbol_given = Some t \<Longrightarrow>
     amount_of pyfloat row df = Some (tax.amount t) \<and>
     parse_date (get_cell_value row df 0 PyNone) = Some (date t)"
  by (auto simp: transform_to_tax_def Let_def split: option.splits)

lemma transform_to_transfer_amount:
  "(transform_to_transfer pyfloat row df transfer_type = None) =
     (parse_date (get_cell_value row df 0 PyNone) = None \<or> amount_of pyfloat row df = None)"
  "transform_to_transfer pyfloat row df transfer_type = Some t \<Longrightarrow>
     amount_of pyfloat row df = Some (transfer.amount t) \<and>
     parse_date (get_cell_value row df 0 PyNone) = Some (date t)"
  by (auto simp: transform_to_transfer_def Let_def split: option.splits)


lemma parse_date_2023_01_15: "parse_date (Str ''2023-01-15'') = Some ''2023-01-15''"
  by (simp add: parse_date_def iso_regex_match_def iso_shape_def is_digit_def code_def)

lemma parse_float_Num: "parse_float pyfloat (Num x t b) = Some x"
  by (simp add: parse_float_def)

lemma parse_float_PyNone: "parse_float pyfloat PyNone = None"
  by (simp add: parse_float_def PyNone_def)

lemma strip_Nil: "strip [] = []"
  by (simp add: strip_def)


lemma strip_EUR: "strip ''EUR'' = ''EUR''"
  by (simp add: strip_def is_space_def code_def)

lemma strip_AAPL: "strip ''AAPL'' = ''AAPL''"
  by (simp add: strip_def is_space_def code_def)

subsection \<open>The categorization\<close>


lemma matches_any_has_keyword: "matches_any keywords (lower text) = has_keyword keywords text"
  by (simp add: matches_any_def has_keyword_def)

lemma categorize_transaction_first_kind:
  "map_of row (Name col) = Some v \<Longrightarrow>
   categorize_transaction row (Some col) = first_kind (strip (py_str v))"
  by (simp add: categorize_transaction_def Let_def first_kind_def priority_def
        matches_any_has_keyword)

lemma categorize_transaction_None:
  "categorize_transaction row None = None"
  "map_of row (Name col) = None \<Longrightarrow> categorize_transaction row (Some col) = None"
  by (simp_all add: categorize_transaction_def)

lemma first_kind_cases:
  "first_kind text =
     (if has_keyword PURCHASE_KEYWORDS text then Some ''purchase''
      else if has_keyword SALE_KEYWORDS text then Some ''sale''
      else if has_keyword DIVIDEND_KEYWORDS text then Some ''dividend''
      else if has_keyword TAX_KEYWORDS text then Some ''tax''
      else if has_keyword DEPOSIT_KEYWORDS text then Some ''deposit''
      else if has_keyword FEE_KEYWORDS text then Some ''fee''
      else None)"
  by (simp add: first_kind_def priority_def)

lemma lower_keywords:
  "map lower PURCHASE_KEYWORDS = [''buy'', ''purchase'', ''executedbuy'']"
  "map lower SALE_KEYWORDS = [''sell'', ''sale'', ''executedsell'']"
  "map lower DIVIDEND_KEYWORDS = [''dividend'']"
  "map lower TAX_KEYWORDS = [''withholding'', ''tax'', ''foreign tax'']"
  "map lower DEPOSIT_KEYWORDS = [''deposit'', ''cash transfer'']"
  "map lower FEE_KEYWORDS = [''cash handling fee'', ''fee'', ''handling'']"
  by (simp_all add: PURCHASE_KEYWORDS_def SALE_KEYWORDS_def DIVIDEND_KEYWORDS_def
        TAX_KEYWORDS_def DEPOSIT_KEYWORDS_def FEE_KEYWORDS_def lower_def lower_char_def code_def
        char_of_def bit_Suc_0_iff)

lemma has_keyword_map:
  "has_keyword keywords text = list_ex (\<lambda>k. contains (lower text) k) (map lower keywords)"
  by (simp add: has_keyword_def list_ex_iff)

lemma lower_Tax_Fee: "lower ''Tax Fee'' = ''tax fee''"
  by (simp add: lower_def lower_char_def code_def char_of_def bit_Suc_0_iff)

lemma lower_Sales_Tax_Fee: "lower ''Sales Tax Fee'' = ''sales tax fee''"
  by (simp add: lower_def lower_char_def code_def char_of_def bit_Suc_0_iff)

lemma kw_Tax_Fee:
  "\<not> has_keyword PURCHASE_KEYWORDS ''Tax Fee''" "\<not> has_keyword SALE_KEYWORDS ''Tax Fee''"
  "\<not> has_keyword DIVIDEND_KEYWORDS ''Tax Fee''" "has_keyword TAX_KEYWORDS ''Tax Fee''"
  "has_keyword FEE_KEYWORDS ''Tax Fee''"
  by (simp_all add: has_keyword_map lower_keywords lower_Tax_Fee)

lemma kw_Sales_Tax_Fee:
  "\<not> has_keyword PURCHASE_KEYWORDS ''Sales Tax Fee''" "has_keyword SALE_KEYWORDS ''Sales Tax Fee''"
  "has_keyword TAX_KEYWORDS ''Sales Tax Fee''"
  "has_keyword FEE_KEYWORDS ''Sales Tax Fee''"
  by (simp_all add: has_keyword_map lower_keywords lower_Sales_Tax_Fee)

lemma strip_Tax_Fee: "strip ''Tax Fee'' = ''Tax Fee''"
  by (simp add: strip_def is_space_def code_def)

lemma strip_Sales_Tax_Fee: "strip ''Sales Tax Fee'' = ''Sales Tax Fee''"
  by (simp add: strip_def is_space_def code_def)


section \<open>The claims\<close>

subsection \<open>C1: the merge of two sorted lists\<close>

text \<open>
  Claim C1, with the condition it needs. For two lists of records of one kind, each
  sorted non-decreasing by date, whose dates are all ISO calendar dates (texts of the
  shape \<^verbatim>\<open>dddd-dd-dd\<close> that \<^verbatim>\<open>strptime\<close> accepts with \<^verbatim>\<open>%Y-%m-%d\<close>),
  \<open>merge_transactions existing new\<close> is sorted non-decreasing by date (by
  \<open>compare_dates\<close>, and as texts), is an interleaving of \<open>existing\<close> and \<open>new\<close> (a
  permutation of their concatenation that keeps the order within each), and among the
  records of any one date those of \<open>existing\<close> come before those of \<open>new\<close>.
\<close>

theorem merge_transactions_sorted_interleave:
  assumes "all_iso existing" "all_iso new" "sorted_by_date existing" "sorted_by_date new"
  shows "sorted_by_date (merge_transactions existing new) \<and>
    sorted (map date (merge_transactions existing new)) \<and>
    merge_transactions existing new \<in> shuffles existing new \<and>
    mset (merge_transactions existing new) = mset existing + mset new \<and>
    (\<forall>d. filter (\<lambda>t. date t = d) (merge_transactions existing new) =
       filter (\<lambda>t. date t = d) existing @ filter (\<lambda>t. date t = d) new)"
proof -
  have srt: "sorted (map date existing)" "sorted (map date new)"
    using assms by (simp_all add: sorted_by_date_iso)
  note st = merge_transactions_sorted_stable[OF assms(1,2) srt]
  have "sorted_by_date (merge_transactions existing new)"
    using st by (simp add: sorted_by_date_iso[OF all_iso_merge[OF assms(1,2)]])
  then show ?thesis
    using st merge_transactions_shuffles[of existing new]
      mset_shuffles[OF merge_transactions_shuffles[of existing new]] by blast
qed

theorem merge_transactions_sorted_interleave_witness:
  "all_iso [\<lparr>date = ''2023-01-15'', \<dots> = (1::nat)\<rparr>, \<lparr>date = ''2023-03-01'', \<dots> = 2\<rparr>] \<and>
   all_iso [\<lparr>date = ''2023-01-15'', \<dots> = (3::nat)\<rparr>, \<lparr>date = ''2023-02-01'', \<dots> = 4\<rparr>] \<and>
   sorted_by_date [\<lparr>date = ''2023-01-15'', \<dots> = (1::nat)\<rparr>, \<lparr>date = ''2023-03-01'', \<dots> = 2\<rparr>] \<and>
   sorted_by_date [\<lparr>date = ''2023-01-15'', \<dots> = (3::nat)\<rparr>, \<lparr>date = ''2023-02-01'', \<dots> = 4\<rparr>] \<and>
   merge_transactions
     [\<lparr>date = ''2023-01-15'', \<dots> = (1::nat)\<rparr>, \<lparr>date = ''2023-03-01'', \<dots> = 2\<rparr>]
     [\<lparr>date = ''2023-01-15'', \<dots> = 3\<rparr>, \<lparr>date = ''2023-02-01'', \<dots> = 4\<rparr>] =
     [\<lparr>date = ''2023-01-15'', \<dots> = 1\<rparr>, \<lparr>date = ''2023-01-15'', \<dots> = 3\<rparr>,
      \<lparr>date = ''2023-02-01'', \<dots> = 4\<rparr>, \<lparr>date = ''2023-03-01'', \<dots> = 2\<rparr>] \<and>
   sorted_by_date
     [\<lparr>date = ''2023-01-15'', \<dots> = (1::nat)\<rparr>, \<lparr>date = ''2023-01-15'', \<dots> = 3\<rparr>,
      \<lparr>date = ''2023-02-01'', \<dots> = 4\<rparr>, \<lparr>date = ''2023-03-01'', \<dots> = 2\<rparr>] \<and>
   [\<lparr>date = ''2023-01-15'', \<dots> = (1::nat)\<rparr>, \<lparr>date = ''2023-01-15'', \<dots> = 3\<rparr>,
    \<lparr>date = ''2023-02-01'', \<dots> = 4\<rparr>, \<lparr>date = ''2023-03-01'', \<dots> = 2\<rparr>]
     \<in> shuffles [\<lparr>date = ''2023-01-15'', \<dots> = (1::nat)\<rparr>, \<lparr>date = ''2023-03-01'', \<dots> = 2\<rparr>]
          [\<lparr>date = ''2023-01-15'', \<dots> = 3\<rparr>, \<lparr>date = ''2023-02-01'', \<dots> = 4\<rparr>]"
proof -
  let ?E = "[\<lparr>date = ''2023-01-15'', \<dots> = (1::nat)\<rparr>, \<lparr>date = ''2023-03-01'', \<dots> = 2\<rparr>]"
  let ?N = "[\<lparr>date = ''2023-01-15'', \<dots> = (3::nat)\<rparr>, \<lparr>date = ''2023-02-01'', \<dots> = 4\<rparr>]"
  have h: "all_iso ?E" "all_iso ?N" "sorted_by_date ?E" "sorted_by_date ?N"
    by (simp_all add: sorted_by_date_def compare_dates_le_iso
          iso_2023_01_15 iso_2023_02_01 iso_2023_03_01)
  have r: "merge_transactions ?E ?N =
      [\<lparr>date = ''2023-01-15'', \<dots> = 1\<rparr>, \<lparr>date = ''2023-01-15'', \<dots> = 3\<rparr>,
       \<lparr>date = ''2023-02-01'', \<dots> = 4\<rparr>, \<lparr>date = ''2023-03-01'', \<dots> = 2\<rparr>]"
    by (simp add: merge_transactions_unfold compare_dates_le_iso
          iso_2023_01_15 iso_2023_02_01 iso_2023_03_01)
  from merge_transactions_sorted_interleave [OF h] have
    "sorted_by_date (merge_transactions ?E ?N)" "merge_transactions ?E ?N \<in> shuffles ?E ?N"
    by blast+
  then show ?thesis unfolding r using h r by blast
qed

text \<open>
  Claim C1 as stated, for every pair of sorted lists, fails. \<open>parse_date\<close> returns a
  text of the shape \<^verbatim>\<open>dddd-dd-dd\<close> as it is, so a record can carry the date
  \<^verbatim>\<open>2023-00-00\<close>, which \<open>compare_dates\<close> ties with every date. Both lists below are
  sorted, by \<open>compare_dates\<close> and as texts; their date ranges are found to overlap, the
  two-pointer merge takes the existing record of March on the tie, and the result has
  March before January.
\<close>

theorem merge_transactions_unsorted_on_invalid_date:
  "parse_date (Str ''2023-00-00'' :: nat cell) = Some ''2023-00-00'' \<and>
   sorted_by_date [\<lparr>date = ''2023-03-01'', \<dots> = (1::nat)\<rparr>] \<and>
   sorted (map date [\<lparr>date = ''2023-03-01'', \<dots> = (1::nat)\<rparr>]) \<and>
   sorted_by_date [\<lparr>date = ''2023-00-00'', \<dots> = (2::nat)\<rparr>, \<lparr>date = ''2023-01-01'', \<dots> = 3\<rparr>,
                   \<lparr>date = ''2023-04-01'', \<dots> = 4\<rparr>] \<and>
   sorted (map date [\<lparr>date = ''2023-00-00'', \<dots> = (2::nat)\<rparr>, \<lparr>date = ''2023-01-01'', \<dots> = 3\<rparr>,
                     \<lparr>date = ''2023-04-01'', \<dots> = 4\<rparr>]) \<and>
   merge_transactions [\<lparr>date = ''2023-03-01'', \<dots> = (1::nat)\<rparr>]
     [\<lparr>date = ''2023-00-00'', \<dots> = 2\<rparr>, \<lparr>date = ''2023-01-01'', \<dots> = 3\<rparr>,
      \<lparr>date = ''2023-04-01'', \<dots> = 4\<rparr>] =
     [\<lparr>date = ''2023-03-01'', \<dots> = 1\<rparr>, \<lparr>date = ''2023-00-00'', \<dots> = 2\<rparr>,
      \<lparr>date = ''2023-01-01'', \<dots> = 3\<rparr>, \<lparr>date = ''2023-04-01'', \<dots> = 4\<rparr>] \<and>
   \<not> sorted_by_date
     [\<lparr>date = ''2023-03-01'', \<dots> = (1::nat)\<rparr>, \<lparr>date = ''2023-00-00'', \<dots> = 2\<rparr>,
      \<lparr>date = ''2023-01-01'', \<dots> = 3\<rparr>, \<lparr>date = ''2023-04-01'', \<dots> = 4\<rparr>] \<and>
   \<not> sorted (map date
     [\<lparr>date = ''2023-03-01'', \<dots> = (1::nat)\<rparr>, \<lparr>date = ''2023-00-00'', \<dots> = 2\<rparr>,
      \<lparr>date = ''2023-01-01'', \<dots> = 3\<rparr>, \<lparr>date = ''2023-04-01'', \<dots> = 4\<rparr>])"
  by (simp add: parse_date_def regex_2023_00_00 sorted_by_date_def merge_transactions_unfold
        sorted_merge_eq compare_dates_2023_00_00 compare_dates_le_iso
        iso_2023_01_01 iso_2023_03_01 iso_2023_04_01)

subsection \<open>C7: any grouping of a chain of merges\<close>

text \<open>
  Claim C7, with the condition it needs. For batches of records of one kind, each sorted
  by date, whose dates are all ISO calendar dates, chaining \<open>merge_transactions\<close> over
  the batches gives the same list under every grouping of the same sequence of batches:
  the stable sort by date of their concatenation. In particular the merge is associative
  on such batches. Merging with an empty batch on either side returns the other operand,
  for every list.
\<close>

theorem merge_transactions_any_grouping:
  "((\<forall>b \<in> set (batches g). all_iso b \<and> sorted_by_date b) \<and> batches g' = batches g \<longrightarrow>
      chain g' = chain g \<and> chain g = sort_key date (concat (batches g))) \<and>
   (all_iso a \<and> all_iso b \<and> all_iso c \<and> sorted_by_date a \<and> sorted_by_date b \<and> sorted_by_date c \<longrightarrow>
      merge_transactions (merge_transactions a b) c =
      merge_transactions a (merge_transactions b c)) \<and>
   merge_transactions a [] = a \<and> merge_transactions [] a = a"
proof -
  have 1: "chain g' = chain g \<and> chain g = sort_key date (concat (batches g))"
    if h: "\<forall>b \<in> set (batches g). all_iso b \<and> sorted_by_date b" and e: "batches g' = batches g"
  proof -
    have s: "\<forall>b \<in> set (batches g). all_iso b \<and> sorted (map date b)"
      using h by (auto simp: sorted_by_date_iso)
    show ?thesis using chain_sort_key[OF s] chain_sort_key[of g'] s e by simp
  qed
  have 2: "merge_transactions (merge_transactions a b) c =
      merge_transactions a (merge_transactions b c)"
    if "all_iso a \<and> all_iso b \<and> all_iso c \<and> sorted_by_date a \<and> sorted_by_date b \<and> sorted_by_date c"
    using that by (intro merge_transactions_assoc) (auto simp: sorted_by_date_iso)
  show ?thesis using 1 2 by (simp add: merge_transactions_Nil)
qed

theorem merge_transactions_any_grouping_witness:
  "all_iso [\<lparr>date = ''2023-01-15'', \<dots> = (1::nat)\<rparr>, \<lparr>date = ''2023-03-01'', \<dots> = 2\<rparr>] \<and>
   all_iso [\<lparr>date = ''2023-01-15'', \<dots> = (3::nat)\<rparr>, \<lparr>date = ''2023-02-01'', \<dots> = 4\<rparr>] \<and>
   all_iso [\<lparr>date = ''2023-02-01'', \<dots> = (5::nat)\<rparr>] \<and>
   sorted_by_date [\<lparr>date = ''2023-01-15'', \<dots> = (1::nat)\<rparr>, \<lparr>date = ''2023-03-01'', \<dots> = 2\<rparr>] \<and>
   sorted_by_date [\<lparr>date = ''2023-01-15'', \<dots> = (3::nat)\<rparr>, \<lparr>date = ''2023-02-01'', \<dots> = 4\<rparr>] \<and>
   sorted_by_date [\<lparr>date = ''2023-02-01'', \<dots> = (5::nat)\<rparr>] \<and>
   chain (Merge (Batch [\<lparr>date = ''2023-01-15'', \<dots> = (1::nat)\<rparr>, \<lparr>date = ''2023-03-01'', \<dots> = 2\<rparr>])
            (Merge (Batch [\<lparr>date = ''2023-01-15'', \<dots> = 3\<rparr>, \<lparr>date = ''2023-02-01'', \<dots> = 4\<rparr>])
               (Batch [\<lparr>date = ''2023-02-01'', \<dots> = 5\<rparr>]))) =
   chain (Merge (Merge (Batch [\<lparr>date = ''2023-01-15'', \<dots> = (1::nat)\<rparr>, \<lparr>date = ''2023-03-01'', \<dots> = 2\<rparr>])
                   (Batch [\<lparr>date = ''2023-01-15'', \<dots> = 3\<rparr>, \<lparr>date = ''2023-02-01'', \<dots> = 4\<rparr>]))
            (Batch [\<lparr>date = ''2023-02-01'', \<dots> = 5\<rparr>])) \<and>
   chain (Merge (Merge (Batch [\<lparr>date = ''2023-01-15'', \<dots> = (1::nat)\<rparr>, \<lparr>date = ''2023-03-01'', \<dots> = 2\<rparr>])
                   (Batch [\<lparr>date = ''2023-01-15'', \<dots> = 3\<rparr>, \<lparr>date = ''2023-02-01'', \<dots> = 4\<rparr>]))
            (Batch [\<lparr>date = ''2023-02-01'', \<dots> = 5\<rparr>])) =
     [\<lparr>date = ''2023-01-15'', \<dots> = 1\<rparr>, \<lparr>date = ''2023-01-15'', \<dots> = 3\<rparr>,
      \<lparr>date = ''2023-02-01'', \<dots> = 4\<rparr>, \<lparr>date = ''2023-02-01'', \<dots> = 5\<rparr>,
      \<lparr>date = ''2023-03-01'', \<dots> = 2\<rparr>] \<and>
   merge_transactions
     (merge_transactions [\<lparr>date = ''2023-01-15'', \<dots> = (1::nat)\<rparr>, \<lparr>date = ''2023-03-01'', \<dots> = 2\<rparr>]
        [\<lparr>date = ''2023-01-15'', \<dots> = 3\<rparr>, \<lparr>date = ''2023-02-01'', \<dots> = 4\<rparr>])
     [\<lparr>date = ''2023-02-01'', \<dots> = 5\<rparr>] =
   merge_transactions [\<lparr>date = ''2023-01-15'', \<dots> = (1::nat)\<rparr>, \<lparr>date = ''2023-03-01'', \<dots> = 2\<rparr>]
     (merge_transactions [\<lparr>date = ''2023-01-15'', \<dots> = 3\<rparr>, \<lparr>date = ''2023-02-01'', \<dots> = 4\<rparr>]
        [\<lparr>date = ''2023-02-01'', \<dots> = 5\<rparr>])"
proof -
  let ?A = "[\<lparr>date = ''2023-01-15'', \<dots> = (1::nat)\<rparr>, \<lparr>date = ''2023-03-01'', \<dots> = 2\<rparr>]"
  let ?B = "[\<lparr>date = ''2023-01-15'', \<dots> = (3::nat)\<rparr>, \<lparr>date = ''2023-02-01'', \<dots> = 4\<rparr>]"
  let ?C = "[\<lparr>date = ''2023-02-01'', \<dots> = (5::nat)\<rparr>]"
  have h: "all_iso ?A" "all_iso ?B" "all_iso ?C"
    "sorted_by_date ?A" "sorted_by_date ?B" "sorted_by_date ?C"
    by (simp_all add: sorted_by_date_def compare_dates_le_iso
          iso_2023_01_15 iso_2023_02_01 iso_2023_03_01)
  have b: "\<forall>b \<in> set (batches (Merge (Merge (Batch ?A) (Batch ?B)) (Batch ?C))).
             all_iso b \<and> sorted_by_date b"
    using h by simp
  have e: "batches (Merge (Batch ?A) (Merge (Batch ?B) (Batch ?C))) =
           batches (Merge (Merge (Batch ?A) (Batch ?B)) (Batch ?C))"
    by simp
  note t = merge_transactions_any_grouping
    [of "Merge (Merge (Batch ?A) (Batch ?B)) (Batch ?C)"
        "Merge (Batch ?A) (Merge (Batch ?B) (Batch ?C))" ?A ?B ?C]
  have 1: "chain (Merge (Batch ?A) (Merge (Batch ?B) (Batch ?C))) =
           chain (Merge (Merge (Batch ?A) (Batch ?B)) (Batch ?C))"
    using t b e by blast
  have "chain (Merge (Merge (Batch ?A) (Batch ?B)) (Batch ?C)) =
        sort_key date (concat (batches (Merge (Merge (Batch ?A) (Batch ?B)) (Batch ?C))))"
    using t b e by blast
  also have "\<dots> =
     [\<lparr>date = ''2023-01-15'', \<dots> = 1\<rparr>, \<lparr>date = ''2023-01-15'', \<dots> = 3\<rparr>,
      \<lparr>date = ''2023-02-01'', \<dots> = 4\<rparr>, \<lparr>date = ''2023-02-01'', \<dots> = 5\<rparr>,
      \<lparr>date = ''2023-03-01'', \<dots> = 2\<rparr>]"
    by simp
  finally have 2: "chain (Merge (Merge (Batch ?A) (Batch ?B)) (Batch ?C)) =
     [\<lparr>date = ''2023-01-15'', \<dots> = 1\<rparr>, \<lparr>date = ''2023-01-15'', \<dots> = 3\<rparr>,
      \<lparr>date = ''2023-02-01'', \<dots> = 4\<rparr>, \<lparr>date = ''2023-02-01'', \<dots> = 5\<rparr>,
      \<lparr>date = ''2023-03-01'', \<dots> = 2\<rparr>]" .
  have 3: "merge_transactions (merge_transactions ?A ?B) ?C =
           merge_transactions ?A (merge_transactions ?B ?C)"
    using t h by blast
  show ?thesis using h 1 2 3 by blast
qed

text \<open>
  Claim C7 as stated, for every sequence of sorted batches, fails. With the date
  \<^verbatim>\<open>2023-00-00\<close>, which \<open>parse_date\<close> lets through and \<open>compare_dates\<close> ties with
  every date, the two groupings of three one-record batches give different lists.
\<close>

theorem merge_transactions_not_associative_on_invalid_date:
  "parse_date (Str ''2023-00-00'' :: nat cell) = Some ''2023-00-00'' \<and>
   sorted_by_date [\<lparr>date = ''2023-03-01'', \<dots> = (1::nat)\<rparr>] \<and>
   sorted_by_date [\<lparr>date = ''2023-00-00'', \<dots> = (2::nat)\<rparr>] \<and>
   sorted_by_date [\<lparr>date = ''2023-01-01'', \<dots> = (3::nat)\<rparr>] \<and>
   merge_transactions
     (merge_transactions [\<lparr>date = ''2023-03-01'', \<dots> = (1::nat)\<rparr>] [\<lparr>date = ''2023-00-00'', \<dots> = 2\<rparr>])
     [\<lparr>date = ''2023-01-01'', \<dots> = 3\<rparr>] =
     [\<lparr>date = ''2023-01-01'', \<dots> = 3\<rparr>, \<lparr>date = ''2023-03-01'', \<dots> = 1\<rparr>,
      \<lparr>date = ''2023-00-00'', \<dots> = 2\<rparr>] \<and>
   merge_transactions [\<lparr>date = ''2023-03-01'', \<dots> = (1::nat)\<rparr>]
     (merge_transactions [\<lparr>date = ''2023-00-00'', \<dots> = 2\<rparr>] [\<lparr>date = ''2023-01-01'', \<dots> = 3\<rparr>]) =
     [\<lparr>date = ''2023-00-00'', \<dots> = 2\<rparr>, \<lparr>date = ''2023-01-01'', \<dots> = 3\<rparr>,
      \<lparr>date = ''2023-03-01'', \<dots> = 1\<rparr>] \<and>
   chain (Merge (Merge (Batch [\<lparr>date = ''2023-03-01'', \<dots> = (1::nat)\<rparr>])
                   (Batch [\<lparr>date = ''2023-00-00'', \<dots> = 2\<rparr>]))
            (Batch [\<lparr>date = ''2023-01-01'', \<dots> = 3\<rparr>])) \<noteq>
   chain (Merge (Batch [\<lparr>date = ''2023-03-01'', \<dots> = (1::nat)\<rparr>])
            (Merge (Batch [\<lparr>date = ''2023-00-00'', \<dots> = 2\<rparr>])
               (Batch [\<lparr>date = ''2023-01-01'', \<dots> = 3\<rparr>])))"
  by (simp add: parse_date_def regex_2023_00_00 sorted_by_date_def merge_transactions_unfold
        sorted_merge_eq compare_dates_2023_00_00 compare_dates_le_iso
        iso_2023_01_01 iso_2023_03_01)

subsection \<open>C10: \<open>compare_dates\<close> is total, and the merge with malformed dates\<close>



subsection \<open>C2: the required fields of a purchase and of a sale\<close>

text \<open>
  Claim C2. \<open>transform_to_purchase\<close> returns a record exactly when the cell at position
  0 parses as a date and the cells at positions 4 and 5 both parse as floats; otherwise
  it returns \<open>None\<close>. The record it returns carries that date, that quantity and that
  unit price; its currency is the trimmed text of the cell at position 6, and
  \<^verbatim>\<open>USD\<close> when that cell is absent or blank; its company symbol is the text of the
  cell at position 3, and empty when that cell is absent or falsy; the three optional
  amounts are the floats of the cells at positions 7, 9 and 10. \<open>transform_to_sale\<close>
  returns a record exactly when \<open>transform_to_purchase\<close> does, with the same value in
  every field.
\<close>

theorem transform_to_purchase_required_fields:
  "(transform_to_purchase pyfloat row df \<noteq> None) =
     (parse_date (get_cell_value row df 0 PyNone) \<noteq> None \<and>
      parse_float pyfloat (get_cell_value row df 4 PyNone) \<noteq> None \<and>
      parse_float pyfloat (get_cell_value row df 5 PyNone) \<noteq> None) \<and>
   (\<forall>p. transform_to_purchase pyfloat row df = Some p \<longrightarrow>
      parse_date (get_cell_value row df 0 PyNone) = Some (date p) \<and>
      parse_float pyfloat (get_cell_value row df 4 PyNone) = Some (purchase.quantity p) \<and>
      parse_float pyfloat (get_cell_value row df 5 PyNone) = Some (purchase.unit_price p) \<and>
      purchase.currency p =
        (if strip (py_str (get_cell_value row df 6 (Str []))) = [] then ''USD''
         else strip (py_str (get_cell_value row df 6 (Str [])))) \<and>
      (cell_absent row df 6 \<or> strip (py_str (get_cell_value row df 6 (Str []))) = [] \<longrightarrow>
         purchase.currency p = ''USD'') \<and>
      purchase.company_symbol p =
        (if truthy (get_cell_value row df 3 (Str [])) then py_str (get_cell_value row df 3 (Str []))
         else []) \<and>
      (cell_absent row df 3 \<longrightarrow> purchase.company_symbol p = []) \<and>
      purchase.transaction_fee p = parse_float pyfloat (get_cell_value row df 7 PyNone) \<and>
      purchase.proceeds_foreign p = parse_float pyfloat (get_cell_value row df 9 PyNone) \<and>
      purchase.proceeds_ils p = parse_float pyfloat (get_cell_value row df 10 PyNone)) \<and>
   (transform_to_sale pyfloat row df = None) = (transform_to_purchase pyfloat row df = None) \<and>
   (\<forall>p s. transform_to_purchase pyfloat row df = Some p \<and>
           transform_to_sale pyfloat row df = Some s \<longrightarrow>
      date s = date p \<and> sale.company_symbol s = purchase.company_symbol p \<and>
      sale.quantity s = purchase.quantity p \<and> sale.unit_price s = purchase.unit_price p \<and>
      sale.currency s = purchase.currency p \<and>
      sale.transaction_fee s = purchase.transaction_fee p \<and>
      sale.proceeds_foreign s = purchase.proceeds_foreign p \<and>
      sale.proceeds_ils s = purchase.proceeds_ils p)"
proof -
  have 1: "(transform_to_purchase pyfloat row df \<noteq> None) =
     (parse_date (get_cell_value row df 0 PyNone) \<noteq> None \<and>
      parse_float pyfloat (get_cell_value row df 4 PyNone) \<noteq> None \<and>
      parse_float pyfloat (get_cell_value row df 5 PyNone) \<noteq> None)"
    using transform_to_purchase_None_iff[of pyfloat row df] by simp
  have 2: "parse_date (get_cell_value row df 0 PyNone) = Some (date p) \<and>
      parse_float pyfloat (get_cell_value row df 4 PyNone) = Some (purchase.quantity p) \<and>
      parse_float pyfloat (get_cell_value row df 5 PyNone) = Some (purchase.unit_price p) \<and>
      purchase.currency p =
        (if strip (py_str (get_cell_value row df 6 (Str []))) = [] then ''USD''
         else strip (py_str (get_cell_value row df 6 (Str [])))) \<and>
      (cell_absent row df 6 \<or> strip (py_str (get_cell_value row df 6 (Str []))) = [] \<longrightarrow>
         purchase.currency p = ''USD'') \<and>
      purchase.company_symbol p =
        (if truthy (get_cell_value row df 3 (Str [])) then py_str (get_cell_value row df 3 (Str []))
         else []) \<and>
      (cell_absent row df 3 \<longrightarrow> purchase.company_symbol p = []) \<and>
      purchase.transaction_fee p = parse_float pyfloat (get_cell_value row df 7 PyNone) \<and>
      purchase.proceeds_foreign p = parse_float pyfloat (get_cell_value row df 9 PyNone) \<and>
      purchase.proceeds_ils p = parse_float pyfloat (get_cell_value row df 10 PyNone)"
    if "transform_to_purchase pyfloat row df = Some p" for p
    using transform_to_purchase_SomeD[OF that] currency_of_default[of row df]
    by (simp add: currency_of_def Let_def get_cell_value_absent)
  have 3: "date s = date p \<and> sale.company_symbol s = purchase.company_symbol p \<and>
      sale.quantity s = purchase.quantity p \<and> sale.unit_price s = purchase.unit_price p \<and>
      sale.currency s = purchase.currency p \<and>
      sale.transaction_fee s = purchase.transaction_fee p \<and>
      sale.proceeds_foreign s = purchase.proceeds_foreign p \<and>
      sale.proceeds_ils s = purchase.proceeds_ils p"
    if "transform_to_purchase pyfloat row df = Some p \<and> transform_to_sale pyfloat row df = Some s"
    for p s
    using transform_to_sale_SomeD[of pyfloat row df s p] that by simp
  show ?thesis
    using 1 2 3 transform_to_sale_None_iff[of pyfloat row df] by blast
qed

theorem transform_to_purchase_required_fields_witness:
  "transform_to_purchase [''150'' \<mapsto> (150::int)]
     [(Name ''Date'', Str ''2023-01-15''), (Name ''Type'', Str ''Buy''), (Name ''Account'', Missing ''nan''),
      (Name ''Symbol'', Str ''AAPL''), (Name ''Quantity'', Num (10::int) ''10'' True), (Name ''Price'', Str ''$150'')]
     \<lparr>columns = [Name ''Date'', Name ''Type'', Name ''Account'', Name ''Symbol'', Name ''Quantity'', Name ''Price''],
      rows = [[(Name ''Date'', Str ''2023-01-15''), (Name ''Type'', Str ''Buy''), (Name ''Account'', Missing ''nan''),
      (Name ''Symbol'', Str ''AAPL''), (Name ''Quantity'', Num (10::int) ''10'' True), (Name ''Price'', Str ''$150'')]]\<rparr> =
     Some \<lparr>date = ''2023-01-15'', purchase.company_symbol = ''AAPL'', purchase.quantity = 10,
          purchase.unit_price = 150, purchase.currency = ''USD'', purchase.transaction_fee = None,
          purchase.proceeds_foreign = None, purchase.proceeds_ils = None\<rparr> \<and>
   transform_to_sale [''150'' \<mapsto> (150::int)]
     [(Name ''Date'', Str ''2023-01-15''), (Name ''Type'', Str ''Buy''), (Name ''Account'', Missing ''nan''),
      (Name ''Symbol'', Str ''AAPL''), (Name ''Quantity'', Num (10::int) ''10'' True), (Name ''Price'', Str ''$150'')]
     \<lparr>columns = [Name ''Date'', Name ''Type'', Name ''Account'', Name ''Symbol'', Name ''Quantity'', Name ''Price''],
      rows = [[(Name ''Date'', Str ''2023-01-15''), (Name ''Type'', Str ''Buy''), (Name ''Account'', Missing ''nan''),
      (Name ''Symbol'', Str ''AAPL''), (Name ''Quantity'', Num (10::int) ''10'' True), (Name ''Price'', Str ''$150'')]]\<rparr> =
     Some \<lparr>date = ''2023-01-15'', sale.company_symbol = ''AAPL'', sale.quantity = 10,
          sale.unit_price = 150, sale.currency = ''USD'', sale.transaction_fee = None,
          sale.proceeds_foreign = None, sale.proceeds_ils = None\<rparr> \<and>
   cell_absent
     [(Name ''Date'', Str ''2023-01-15''), (Name ''Type'', Str ''Buy''), (Name ''Account'', Missing ''nan''),
      (Name ''Symbol'', Str ''AAPL''), (Name ''Quantity'', Num (10::int) ''10'' True), (Name ''Price'', Str ''$150'')]
     \<lparr>columns = [Name ''Date'', Name ''Type'', Name ''Account'', Name ''Symbol'', Name ''Quantity'', Name ''Price''],
      rows = [[(Name ''Date'', Str ''2023-01-15''), (Name ''Type'', Str ''Buy''), (Name ''Account'', Missing ''nan''),
      (Name ''Symbol'', Str ''AAPL''), (Name ''Quantity'', Num (10::int) ''10'' True), (Name ''Price'', Str ''$150'')]]\<rparr> 6 \<and>
   parse_date (get_cell_value
     [(Name ''Date'', Str ''2023-01-15''), (Name ''Type'', Str ''Buy''), (Name ''Account'', Missing ''nan''),
      (Name ''Symbol'', Str ''AAPL''), (Name ''Quantity'', Num (10::int) ''10'' True), (Name ''Price'', Str ''$150'')]
     \<lparr>columns = [Name ''Date'', Name ''Type'', Name ''Account'', Name ''Symbol'', Name ''Quantity'', Name ''Price''],
      rows = [[(Name ''Date'', Str ''2023-01-15''), (Name ''Type'', Str ''Buy''), (Name ''Account'', Missing ''nan''),
      (Name ''Symbol'', Str ''AAPL''), (Name ''Quantity'', Num (10::int) ''10'' True), (Name ''Price'', Str ''$150'')]]\<rparr> 0 PyNone) = Some ''2023-01-15''"
proof -
  let ?row = "[(Name ''Date'', Str ''2023-01-15''), (Name ''Type'', Str ''Buy''), (Name ''Account'', Missing ''nan''),
      (Name ''Symbol'', Str ''AAPL''), (Name ''Quantity'', Num (10::int) ''10'' True), (Name ''Price'', Str ''$150'')]"
  let ?df = "\<lparr>columns = [Name ''Date'', Name ''Type'', Name ''Account'', Name ''Symbol'', Name ''Quantity'', Name ''Price''],
      rows = [[(Name ''Date'', Str ''2023-01-15''), (Name ''Type'', Str ''Buy''), (Name ''Account'', Missing ''nan''),
      (Name ''Symbol'', Str ''AAPL''), (Name ''Quantity'', Num (10::int) ''10'' True), (Name ''Price'', Str ''$150'')]]\<rparr>"
  let ?pf = "[''150'' \<mapsto> (150::int)]"
  have c: "get_cell_value ?row ?df 0 PyNone = Str ''2023-01-15''"
    "get_cell_value ?row ?df 3 (Str []) = Str ''AAPL''"
    "get_cell_value ?row ?df 4 PyNone = Num (10::int) ''10'' True"
    "get_cell_value ?row ?df 5 PyNone = Str ''$150''"
    "get_cell_value ?row ?df 6 (Str []) = Str []"
    "get_cell_value ?row ?df 7 PyNone = PyNone"
    "get_cell_value ?row ?df 9 PyNone = PyNone"
    "get_cell_value ?row ?df 10 PyNone = PyNone"
    by (simp_all add: get_cell_value_def)
  have f: "parse_float ?pf (Str ''$150'') = Some 150"
    by (simp add: parse_float_def strip_def is_space_def code_def)
  have p: "transform_to_purchase ?pf ?row ?df =
     Some \<lparr>date = ''2023-01-15'', purchase.company_symbol = ''AAPL'', purchase.quantity = 10,
          purchase.unit_price = 150, purchase.currency = ''USD'', purchase.transaction_fee = None,
          purchase.proceeds_foreign = None, purchase.proceeds_ils = None\<rparr>"
    unfolding transform_to_purchase_def currency_of_def c
    by (simp add: parse_date_2023_01_15 parse_float_Num parse_float_PyNone f strip_Nil)
  have s: "transform_to_sale ?pf ?row ?df =
     Some \<lparr>date = ''2023-01-15'', sale.company_symbol = ''AAPL'', sale.quantity = 10,
          sale.unit_price = 150, sale.currency = ''USD'', sale.transaction_fee = None,
          sale.proceeds_foreign = None, sale.proceeds_ils = None\<rparr>"
    unfolding transform_to_sale_def p by simp
  have a: "cell_absent ?row ?df 6"
    by (simp add: cell_absent_def)
  note t = transform_to_purchase_required_fields
    [THEN conjunct2, THEN conjunct1, rule_format, OF p, THEN conjunct1]
  have d: "parse_date (get_cell_value ?row ?df 0 PyNone) = Some ''2023-01-15''"
    using t by simp
  show ?thesis by (intro conjI p s a d)
qed

subsection \<open>C4: the amount of a dividend, a tax and a transfer\<close>

text \<open>
  Claim C4. Each of \<open>transform_to_dividend\<close>, \<open>transform_to_tax\<close> and
  \<open>transform_to_transfer\<close> returns \<open>None\<close> exactly when the cell at position 0 does
  not parse as a date or none of the cells at positions 9, 10 and 5 parses as a float;
  the amount of the record it returns is the float of the first of the cells at
  positions 9, 10 and 5, in that order, that parses.
\<close>

theorem amount_first_of_three:
  "(transform_to_dividend pyfloat row df symbol_given = None) =
     (parse_date (get_cell_value row df 0 PyNone) = None \<or>
      (parse_float pyfloat (get_cell_value row df 9 PyNone) = None \<and>
       parse_float pyfloat (get_cell_value row df 10 PyNone) = None \<and>
       parse_float pyfloat (get_cell_value row df 5 PyNone) = None)) \<and>
   (\<forall>d. transform_to_dividend pyfloat row df symbol_given = Some d \<longrightarrow>
      Some (dividend.amount d) =
        (case parse_float pyfloat (get_cell_value row df 9 PyNone) of
           Some a \<Rightarrow> Some a
         | None \<Rightarrow>
             (case parse_float pyfloat (get_cell_value row df 10 PyNone) of
                Some a \<Rightarrow> Some a
              | None \<Rightarrow> parse_float pyfloat (get_cell_value row df 5 PyNone)))) \<and>
   (transform_to_tax pyfloat row df tax_symbol = None) =
     (parse_date (get_cell_value row df 0 PyNone) = None \<or>
      (parse_float pyfloat (get_cell_value row df 9 PyNone) = None \<and>
       parse_float pyfloat (get_cell_value row df 10 PyNone) = None \<and>
       parse_float pyfloat (get_cell_value row df 5 PyNone) = None)) \<and>
   (\<forall>t. transform_to_tax pyfloat row df tax_symbol = Some t \<longrightarrow>
      Some (tax.amount t) =
        (case parse_float pyfloat (get_cell_value row df 9 PyNone) of
           Some a \<Rightarrow> Some a
         | None \<Rightarrow>
             (case parse_float pyfloat (get_cell_value row df 10 PyNone) of
                Some a \<Rightarrow> Some a
              | None \<Rightarrow> parse_float pyfloat (get_cell_value row df 5 PyNone)))) \<and>
   (transform_to_transfer pyfloat row df transfer_type = None) =
     (parse_date (get_cell_value row df 0 PyNone) = None \<or>
      (parse_float pyfloat (get_cell_value row df 9 PyNone) = None \<and>
       parse_float pyfloat (get_cell_value row df 10 PyNone) = None \<and>
       parse_float pyfloat (get_cell_value row df 5 PyNone) = None)) \<and>
   (\<forall>t. transform_to_transfer pyfloat row df transfer_type = Some t \<longrightarrow>
      Some (transfer.amount t) =
        (case parse_float pyfloat (get_cell_value row df 9 PyNone) of
           Some a \<Rightarrow> Some a
         | None \<Rightarrow>
             (case parse_float pyfloat (get_cell_value row df 10 PyNone) of
                Some a \<Rightarrow> Some a
              | None \<Rightarrow> parse_float pyfloat (get_cell_value row df 5 PyNone))))"
proof -
  note a = amount_of_first[of pyfloat row df, symmetric]
  note n = amount_of_None_iff[of pyfloat row df, symmetric]
  have d: "(transform_to_dividend pyfloat row df symbol_given = None) =
     (parse_date (get_cell_value row df 0 PyNone) = None \<or> amount_of pyfloat row df = None)"
    "\<forall>d. transform_to_dividend pyfloat row df symbol_given = Some d \<longrightarrow>
       Some (dividend.amount d) = amount_of pyfloat row df"
    using transform_to_dividend_amount[of pyfloat row df symbol_given] by simp_all
  have t: "(transform_to_tax pyfloat row df tax_symbol = None) =
     (parse_date (get_cell_value row df 0 PyNone) = None \<or> amount_of pyfloat row df = None)"
    "\<forall>t. transform_to_tax pyfloat row df tax_symbol = Some t \<longrightarrow>
       Some (tax.amount t) = amount_of pyfloat row df"
    using transform_to_tax_amount[of pyfloat row df tax_symbol] by simp_all
  have r: "(transform_to_transfer pyfloat row df transfer_type = None) =
     (parse_date (get_cell_value row df 0 PyNone) = None \<or> amount_of pyfloat row df = None)"
    "\<forall>t. transform_to_transfer pyfloat row df transfer_type = Some t \<longrightarrow>
       Some (transfer.amount t) = amount_of pyfloat row df"
    using transform_to_transfer_amount[of pyfloat row df transfer_type] by simp_all
  show ?thesis
    unfolding a n using d t r by blast
qed

theorem amount_first_of_three_witness:
  "transform_to_dividend (\<lambda>s. None)
     [(Name ''Date'', Str ''2023-01-15''), (Name ''Type'', Str ''Dividend''),
      (Name ''Account'', Missing ''nan''), (Name ''Symbol'', Str ''AAPL''),
      (Name ''Quantity'', Missing ''nan''), (Name ''Price'', Num (7::int) ''7'' True),
      (Name ''Currency'', Str ''EUR''), (Name ''Fee'', Missing ''nan''),
      (Name ''Note'', Missing ''nan''), (Name ''Proceeds'', Missing ''nan''),
      (Name ''ProceedsILS'', Num 25 ''25'' True)]
     \<lparr>columns = [Name ''Date'', Name ''Type'', Name ''Account'', Name ''Symbol'', Name ''Quantity'',
                 Name ''Price'', Name ''Currency'', Name ''Fee'', Name ''Note'', Name ''Proceeds'',
                 Name ''ProceedsILS''],
      rows = [[(Name ''Date'', Str ''2023-01-15''), (Name ''Type'', Str ''Dividend''),
      (Name ''Account'', Missing ''nan''), (Name ''Symbol'', Str ''AAPL''),
      (Name ''Quantity'', Missing ''nan''), (Name ''Price'', Num (7::int) ''7'' True),
      (Name ''Currency'', Str ''EUR''), (Name ''Fee'', Missing ''nan''),
      (Name ''Note'', Missing ''nan''), (Name ''Proceeds'', Missing ''nan''),
      (Name ''ProceedsILS'', Num 25 ''25'' True)]]\<rparr> (Some ''AAPL'') =
     Some \<lparr>date = ''2023-01-15'', dividend.company_symbol = ''AAPL'', dividend.amount = 25,
          dividend.currency = ''EUR''\<rparr> \<and>
   transform_to_tax (\<lambda>s. None)
     [(Name ''Date'', Str ''2023-01-15''), (Name ''Type'', Str ''Dividend''),
      (Name ''Account'', Missing ''nan''), (Name ''Symbol'', Str ''AAPL''),
      (Name ''Quantity'', Missing ''nan''), (Name ''Price'', Num (7::int) ''7'' True),
      (Name ''Currency'', Str ''EUR''), (Name ''Fee'', Missing ''nan''),
      (Name ''Note'', Missing ''nan''), (Name ''Proceeds'', Missing ''nan''),
      (Name ''ProceedsILS'', Num 25 ''25'' True)]
     \<lparr>columns = [Name ''Date'', Name ''Type'', Name ''Account'', Name ''Symbol'', Name ''Quantity'',
                 Name ''Price'', Name ''Currency'', Name ''Fee'', Name ''Note'', Name ''Proceeds'',
                 Name ''ProceedsILS''],
      rows = [[(Name ''Date'', Str ''2023-01-15''), (Name ''Type'', Str ''Dividend''),
      (Name ''Account'', Missing ''nan''), (Name ''Symbol'', Str ''AAPL''),
      (Name ''Quantity'', Missing ''nan''), (Name ''Price'', Num (7::int) ''7'' True),
      (Name ''Currency'', Str ''EUR''), (Name ''Fee'', Missing ''nan''),
      (Name ''Note'', Missing ''nan''), (Name ''Proceeds'', Missing ''nan''),
      (Name ''ProceedsILS'', Num 25 ''25'' True)]]\<rparr> None =
     Some \<lparr>date = ''2023-01-15'', tax.company_symbol = Some ''AAPL'', tax.amount = 25,
          tax.currency = ''EUR''\<rparr> \<and>
   transform_to_transfer (\<lambda>s. None)
     [(Name ''Date'', Str ''2023-01-15''), (Name ''Type'', Str ''Dividend''),
      (Name ''Account'', Missing ''nan''), (Name ''Symbol'', Str ''AAPL''),
      (Name ''Quantity'', Missing ''nan''), (Name ''Price'', Num (7::int) ''7'' True),
      (Name ''Currency'', Str ''EUR''), (Name ''Fee'', Missing ''nan''),
      (Name ''Note'', Missing ''nan''), (Name ''Proceeds'', Missing ''nan''),
      (Name ''ProceedsILS'', Num 25 ''25'' True)]
     \<lparr>columns = [Name ''Date'', Name ''Type'', Name ''Account'', Name ''Symbol'', Name ''Quantity'',
                 Name ''Price'', Name ''Currency'', Name ''Fee'', Name ''Note'', Name ''Proceeds'',
                 Name ''ProceedsILS''],
      rows = [[(Name ''Date'', Str ''2023-01-15''), (Name ''Type'', Str ''Dividend''),
      (Name ''Account'', Missing ''nan''), (Name ''Symbol'', Str ''AAPL''),
      (Name ''Quantity'', Missing ''nan''), (Name ''Price'', Num (7::int) ''7'' True),
      (Name ''Currency'', Str ''EUR''), (Name ''Fee'', Missing ''nan''),
      (Name ''Note'', Missing ''nan''), (Name ''Proceeds'', Missing ''nan''),
      (Name ''ProceedsILS'', Num 25 ''25'' True)]]\<rparr> ''deposit'' =
     Some \<lparr>date = ''2023-01-15'', transfer.type = ''deposit'', transfer.amount = 25,
          transfer.currency = ''EUR''\<rparr> \<and>
   parse_float (\<lambda>s. None) (get_cell_value
     [(Name ''Date'', Str ''2023-01-15''), (Name ''Type'', Str ''Dividend''),
      (Name ''Account'', Missing ''nan''), (Name ''Symbol'', Str ''AAPL''),
      (Name ''Quantity'', Missing ''nan''), (Name ''Price'', Num (7::int) ''7'' True),
      (Name ''Currency'', Str ''EUR''), (Name ''Fee'', Missing ''nan''),
      (Name ''Note'', Missing ''nan''), (Name ''Proceeds'', Missing ''nan''),
      (Name ''ProceedsILS'', Num 25 ''25'' True)]
     \<lparr>columns = [Name ''Date'', Name ''Type'', Name ''Account'', Name ''Symbol'', Name ''Quantity'',
                 Name ''Price'', Name ''Currency'', Name ''Fee'', Name ''Note'', Name ''Proceeds'',
                 Name ''ProceedsILS''],
      rows = [[(Name ''Date'', Str ''2023-01-15''), (Name ''Type'', Str ''Dividend''),
      (Name ''Account'', Missing ''nan''), (Name ''Symbol'', Str ''AAPL''),
      (Name ''Quantity'', Missing ''nan''), (Name ''Price'', Num (7::int) ''7'' True),
      (Name ''Currency'', Str ''EUR''), (Name ''Fee'', Missing ''nan''),
      (Name ''Note'', Missing ''nan''), (Name ''Proceeds'', Missing ''nan''),
      (Name ''ProceedsILS'', Num 25 ''25'' True)]]\<rparr> 9 PyNone) = None \<and>
   parse_float (\<lambda>s. None) (get_cell_value
     [(Name ''Date'', Str ''2023-01-15''), (Name ''Type'', Str ''Dividend''),
      (Name ''Account'', Missing ''nan''), (Name ''Symbol'', Str ''AAPL''),
      (Name ''Quantity'', Missing ''nan''), (Name ''Price'', Num (7::int) ''7'' True),
      (Name ''Currency'', Str ''EUR''), (Name ''Fee'', Missing ''nan''),
      (Name ''Note'', Missing ''nan''), (Name ''Proceeds'', Missing ''nan''),
      (Name ''ProceedsILS'', Num 25 ''25'' True)]
     \<lparr>columns = [Name ''Date'', Name ''Type'', Name ''Account'', Name ''Symbol'', Name ''Quantity'',
                 Name ''Price'', Name ''Currency'', Name ''Fee'', Name ''Note'', Name ''Proceeds'',
                 Name ''ProceedsILS''],
      rows = [[(Name ''Date'', Str ''2023-01-15''), (Name ''Type'', Str ''Dividend''),
      (Name ''Account'', Missing ''nan''), (Name ''Symbol'', Str ''AAPL''),
      (Name ''Quantity'', Missing ''nan''), (Name ''Price'', Num (7::int) ''7'' True),
      (Name ''Currency'', Str ''EUR''), (Name ''Fee'', Missing ''nan''),
      (Name ''Note'', Missing ''nan''), (Name ''Proceeds'', Missing ''nan''),
      (Name ''ProceedsILS'', Num 25 ''25'' True)]]\<rparr> 10 PyNone) = Some 25 \<and>
   parse_float (\<lambda>s. None) (get_cell_value
     [(Name ''Date'', Str ''2023-01-15''), (Name ''Type'', Str ''Dividend''),
      (Name ''Account'', Missing ''nan''), (Name ''Symbol'', Str ''AAPL''),
      (Name ''Quantity'', Missing ''nan''), (Name ''Price'', Num (7::int) ''7'' True),
      (Name ''Currency'', Str ''EUR''), (Name ''Fee'', Missing ''nan''),
      (Name ''Note'', Missing ''nan''), (Name ''Proceeds'', Missing ''nan''),
      (Name ''ProceedsILS'', Num 25 ''25'' True)]
     \<lparr>columns = [Name ''Date'', Name ''Type'', Name ''Account'', Name ''Symbol'', Name ''Quantity'',
                 Name ''Price'', Name ''Currency'', Name ''Fee'', Name ''Note'', Name ''Proceeds'',
                 Name ''ProceedsILS''],
      rows = [[(Name ''Date'', Str ''2023-01-15''), (Name ''Type'', Str ''Dividend''),
      (Name ''Account'', Missing ''nan''), (Name ''Symbol'', Str ''AAPL''),
      (Name ''Quantity'', Missing ''nan''), (Name ''Price'', Num (7::int) ''7'' True),
      (Name ''Currency'', Str ''EUR''), (Name ''Fee'', Missing ''nan''),
      (Name ''Note'', Missing ''nan''), (Name ''Proceeds'', Missing ''nan''),
      (Name ''ProceedsILS'', Num 25 ''25'' True)]]\<rparr> 5 PyNone) = Some 7"
proof -
  let ?row = "[(Name ''Date'', Str ''2023-01-15''), (Name ''Type'', Str ''Dividend''),
      (Name ''Account'', Missing ''nan''), (Name ''Symbol'', Str ''AAPL''),
      (Name ''Quantity'', Missing ''nan''), (Name ''Price'', Num (7::int) ''7'' True),
      (Name ''Currency'', Str ''EUR''), (Name ''Fee'', Missing ''nan''),
      (Name ''Note'', Missing ''nan''), (Name ''Proceeds'', Missing ''nan''),
      (Name ''ProceedsILS'', Num 25 ''25'' True)]"
  let ?df = "\<lparr>columns = [Name ''Date'', Name ''Type'', Name ''Account'', Name ''Symbol'', Name ''Quantity'',
                 Name ''Price'', Name ''Currency'', Name ''Fee'', Name ''Note'', Name ''Proceeds'',
                 Name ''ProceedsILS''],
      rows = [[(Name ''Date'', Str ''2023-01-15''), (Name ''Type'', Str ''Dividend''),
      (Name ''Account'', Missing ''nan''), (Name ''Symbol'', Str ''AAPL''),
      (Name ''Quantity'', Missing ''nan''), (Name ''Price'', Num (7::int) ''7'' True),
      (Name ''Currency'', Str ''EUR''), (Name ''Fee'', Missing ''nan''),
      (Name ''Note'', Missing ''nan''), (Name ''Proceeds'', Missing ''nan''),
      (Name ''ProceedsILS'', Num 25 ''25'' True)]]\<rparr>"
  let ?pf = "(\<lambda>s. None) :: string \<Rightarrow> int option"
  have c: "get_cell_value ?row ?df 0 PyNone = Str ''2023-01-15''"
    "get_cell_value ?row ?df 3 (Str []) = Str ''AAPL''"
    "get_cell_value ?row ?df 5 PyNone = Num 7 ''7'' True"
    "get_cell_value ?row ?df 6 (Str []) = Str ''EUR''"
    "get_cell_value ?row ?df 9 PyNone = PyNone"
    "get_cell_value ?row ?df 10 PyNone = Num 25 ''25'' True"
    by (simp_all add: get_cell_value_def)
  have a: "amount_of ?pf ?row ?df = Some 25"
    unfolding amount_of_def c by (simp add: parse_float_Num parse_float_PyNone)
  have d: "transform_to_dividend ?pf ?row ?df (Some ''AAPL'') =
     Some \<lparr>date = ''2023-01-15'', dividend.company_symbol = ''AAPL'', dividend.amount = 25,
          dividend.currency = ''EUR''\<rparr>"
    unfolding transform_to_dividend_def currency_of_def a c
    by (simp add: parse_date_2023_01_15 strip_EUR)
  have t: "transform_to_tax ?pf ?row ?df None =
     Some \<lparr>date = ''2023-01-15'', tax.company_symbol = Some ''AAPL'', tax.amount = 25,
          tax.currency = ''EUR''\<rparr>"
    unfolding transform_to_tax_def currency_of_def a c
    by (simp add: parse_date_2023_01_15 strip_EUR strip_AAPL)
  have r: "transform_to_transfer ?pf ?row ?df ''deposit'' =
     Some \<lparr>date = ''2023-01-15'', transfer.type = ''deposit'', transfer.amount = 25,
          transfer.currency = ''EUR''\<rparr>"
    unfolding transform_to_transfer_def currency_of_def a c
    by (simp add: parse_date_2023_01_15 strip_EUR)
  note f = amount_first_of_three
    [THEN conjunct2, THEN conjunct1, rule_format, OF d]
  have p9: "parse_float ?pf (get_cell_value ?row ?df 9 PyNone) = None"
    unfolding c by (rule parse_float_PyNone)
  have p5: "parse_float ?pf (get_cell_value ?row ?df 5 PyNone) = Some 7"
    unfolding c by (rule parse_float_Num)
  have p10: "parse_float ?pf (get_cell_value ?row ?df 10 PyNone) = Some 25"
    using f[symmetric] p9 p5 by (simp split: option.splits)
  show ?thesis by (intro conjI d t r p9 p10 p5)
qed

subsection \<open>C3: the priority of the keyword lists\<close>

text \<open>
  Claim C3, with the condition its last sentence needs. Without a type column, or when
  the row has no cell under it, \<open>categorize_transaction\<close> returns \<open>None\<close>. Otherwise it
  takes the text of the cell, trimmed, and returns the kind of the first of the six
  keyword lists, in the order purchase, sale, dividend, tax, deposit, fee, of which the
  text has a keyword, letter case apart; a text with no keyword of any list gives
  \<open>None\<close>. A text with keywords of both the tax list and the fee list, and with no
  keyword of the purchase, sale and dividend lists, is a tax.
\<close>

theorem categorize_transaction_priority:
  "categorize_transaction row None = None \<and>
   (map_of row (Name col) = None \<longrightarrow> categorize_transaction row (Some col) = None) \<and>
   (\<forall>v. map_of row (Name col) = Some v \<longrightarrow>
      categorize_transaction row (Some col) = first_kind (strip (py_str v)) \<and>
      (\<not> has_keyword PURCHASE_KEYWORDS (strip (py_str v)) \<and>
       \<not> has_keyword SALE_KEYWORDS (strip (py_str v)) \<and>
       \<not> has_keyword DIVIDEND_KEYWORDS (strip (py_str v)) \<and>
       \<not> has_keyword TAX_KEYWORDS (strip (py_str v)) \<and>
       \<not> has_keyword DEPOSIT_KEYWORDS (strip (py_str v)) \<and>
       \<not> has_keyword FEE_KEYWORDS (strip (py_str v)) \<longrightarrow>
         categorize_transaction row (Some col) = None) \<and>
      (has_keyword TAX_KEYWORDS (strip (py_str v)) \<and>
       has_keyword FEE_KEYWORDS (strip (py_str v)) \<and>
       \<not> has_keyword PURCHASE_KEYWORDS (strip (py_str v)) \<and>
       \<not> has_keyword SALE_KEYWORDS (strip (py_str v)) \<and>
       \<not> has_keyword DIVIDEND_KEYWORDS (strip (py_str v)) \<longrightarrow>
         categorize_transaction row (Some col) = Some ''tax'')) \<and>
   first_kind text =
     (if has_keyword PURCHASE_KEYWORDS text then Some ''purchase''
      else if has_keyword SALE_KEYWORDS text then Some ''sale''
      else if has_keyword DIVIDEND_KEYWORDS text then Some ''dividend''
      else if has_keyword TAX_KEYWORDS text then Some ''tax''
      else if has_keyword DEPOSIT_KEYWORDS text then Some ''deposit''
      else if has_keyword FEE_KEYWORDS text then Some ''fee''
      else None)"
proof -
  have 1: "categorize_transaction row (Some col) = first_kind (strip (py_str v)) \<and>
      (\<not> has_keyword PURCHASE_KEYWORDS (strip (py_str v)) \<and>
       \<not> has_keyword SALE_KEYWORDS (strip (py_str v)) \<and>
       \<not> has_keyword DIVIDEND_KEYWORDS (strip (py_str v)) \<and>
       \<not> has_keyword TAX_KEYWORDS (strip (py_str v)) \<and>
       \<not> has_keyword DEPOSIT_KEYWORDS (strip (py_str v)) \<and>
       \<not> has_keyword FEE_KEYWORDS (strip (py_str v)) \<longrightarrow>
         categorize_transaction row (Some col) = None) \<and>
      (has_keyword TAX_KEYWORDS (strip (py_str v)) \<and>
       has_keyword FEE_KEYWORDS (strip (py_str v)) \<and>
       \<not> has_keyword PURCHASE_KEYWORDS (strip (py_str v)) \<and>
       \<not> has_keyword SALE_KEYWORDS (strip (py_str v)) \<and>
       \<not> has_keyword DIVIDEND_KEYWORDS (strip (py_str v)) \<longrightarrow>
         categorize_transaction row (Some col) = Some ''tax'')"
    if "map_of row (Name col) = Some v" for v
    unfolding categorize_transaction_first_kind[OF that] first_kind_cases by simp
  show ?thesis
    using 1 categorize_transaction_None(1)[of row] categorize_transaction_None(2)[of row col] first_kind_cases[of "text"] by blast
qed

theorem categorize_transaction_priority_witness:
  "has_keyword TAX_KEYWORDS ''Tax Fee'' \<and> has_keyword FEE_KEYWORDS ''Tax Fee'' \<and>
   \<not> has_keyword PURCHASE_KEYWORDS ''Tax Fee'' \<and> \<not> has_keyword SALE_KEYWORDS ''Tax Fee'' \<and>
   \<not> has_keyword DIVIDEND_KEYWORDS ''Tax Fee'' \<and>
   categorize_transaction [(Name ''Date'', Str ''2023-01-15''), (Name ''Type'', Str ''Tax Fee'' :: int cell)]
     (Some ''Type'') = Some ''tax''"
proof -
  have m: "map_of [(Name ''Date'', Str ''2023-01-15''), (Name ''Type'', Str ''Tax Fee'' :: int cell)]
             (Name ''Type'') = Some (Str ''Tax Fee'')"
    by simp
  note t = categorize_transaction_priority
    [THEN conjunct2, THEN conjunct2, THEN conjunct1, rule_format, OF m,
     THEN conjunct2, THEN conjunct2, rule_format]
  have "categorize_transaction
      [(Name ''Date'', Str ''2023-01-15''), (Name ''Type'', Str ''Tax Fee'' :: int cell)]
      (Some ''Type'') = Some ''tax''"
    by (rule t) (simp add: strip_Tax_Fee kw_Tax_Fee)
  then show ?thesis by (simp add: kw_Tax_Fee)
qed

text \<open>
  The last sentence of claim C3 as stated, for every text with keywords of both the tax
  list and the fee list, fails: \<^verbatim>\<open>Sales Tax Fee\<close> has keywords of both lists and is a
  sale, the first list of which it has a keyword.
\<close>

theorem categorize_transaction_sales_tax_fee:
  "has_keyword TAX_KEYWORDS ''Sales Tax Fee'' \<and> has_keyword FEE_KEYWORDS ''Sales Tax Fee'' \<and>
   categorize_transaction [(Name ''Date'', Str ''2023-01-15''), (Name ''Type'', Str ''Sales Tax Fee'' :: int cell)]
     (Some ''Type'') = Some ''sale''"
proof -
  have m: "map_of [(Name ''Date'', Str ''2023-01-15''), (Name ''Type'', Str ''Sales Tax Fee'' :: int cell)]
             (Name ''Type'') = Some (Str ''Sales Tax Fee'')"
    by simp
  show ?thesis
    unfolding categorize_transaction_first_kind[OF m] first_kind_cases
    by (simp add: strip_Sales_Tax_Fee kw_Sales_Tax_Fee)
qed

end
